theory Spec2Isabelle
  imports Complex_Main "HOL-Library.Multiset" "HOL-Library.AList"
    "HOL-Library.Char_ord" "HOL-Library.List_Lexorder"
begin

section \<open>Acoustic drone classifier: numeric conventions\<close>

text \<open>
  The Go sources compute with \<open>float64\<close>. The embedding reads every
  \<open>float64\<close> as a real number: rounding, NaN and the infinities are outside
  the model, and a division is only trusted where its divisor is shown to be
  non-zero. Go's \<open>int\<close> is read as \<open>int\<close> or \<open>nat\<close> without overflow.
  Strings are byte strings, as in Go.
\<close>

datatype error =
    EmptyFeatureVector
  | PrototypeHasNoFeatures
  | InvalidNeighbourCount
  | FailedToLoadPrototypes
  | UnableToParsePrototypes
  | PrototypeMissingLabel
  | PrototypeWrongFeatureCount
  | PrototypeInsufficientHarmonic
  | NoPrototypesProvided
  | PrototypesHaveNoFeatures
  | InconsistentFeatureDimensions
  | ModelPathNotSet
  | NoSamplesProvided
  | InvalidSampleRate

section \<open>Decision threshold\<close>

text \<open>Source: \<^verbatim>\<open>src/server/drone/feature_analysis.go\<close>, the preprocessing part.\<close>

text \<open>\<open>AdaptiveThreshold\<close>: the if-chain on the SNR, then the two clamps.\<close>

definition AdaptiveThreshold :: "real \<Rightarrow> real \<Rightarrow> real" where
  "AdaptiveThreshold baseThreshold snrDb =
     (let adjustment =
            (if snrDb < 10 then 15 / 100
             else if snrDb < 20 then 10 / 100
             else if snrDb < 30 then 5 / 100
             else 0);
          adjustedThreshold = baseThreshold + adjustment
      in if adjustedThreshold < 5 / 10 then 5 / 10
         else if adjustedThreshold > 9 / 10 then 9 / 10
         else adjustedThreshold)"

text \<open>
  The rule of the specification, written from its words: the band offset, and the
  clamp to \<open>[0.5, 0.9]\<close>.
\<close>

definition spec_adjustment :: "real \<Rightarrow> real" where
  "spec_adjustment snr =
     (if snr < 10 then 15 / 100
      else if 10 \<le> snr \<and> snr < 20 then 10 / 100
      else if 20 \<le> snr \<and> snr < 30 then 5 / 100
      else 0)"

definition spec_clamp :: "real \<Rightarrow> real \<Rightarrow> real \<Rightarrow> real" where
  "spec_clamp lo hi x = max lo (min hi x)"

section \<open>Data model\<close>

text \<open>Source: the types of package \<^verbatim>\<open>drone\<close> in \<^verbatim>\<open>src/unnamed/part_001\<close>.\<close>

record Prototype =
  ID :: string
  Label :: string
  Category :: string
  Description :: string
  Source :: string
  Features :: "real list"
  Metadata :: "string \<rightharpoonup> string"

record PrototypeScore =
  ScoreID :: string
  Distance :: real
  Weight :: real
  ScoreSource :: string

text \<open>
  \<open>Prediction\<close>: the fields \<open>Type\<close> and \<open>ThreatAssessment\<close> are texts derived from the label
  metadata (\<open>derivePredictionType\<close>, \<open>ExtractThreatAssessment\<close>); they feed no number and
  are left out. \<open>PredMetadata\<close> is \<open>None\<close> for Go's nil map.
\<close>

record Prediction =
  PredLabel :: string
  PredCategory :: string
  PredDescription :: string
  Confidence :: real
  AverageDist :: real
  Support :: nat
  TopPrototypes :: "PrototypeScore list"
  PredMetadata :: "(string \<rightharpoonup> string) option"

record FeatureScaler =
  Mean :: "real list"
  Stddev :: "real list"

text \<open>
  \<open>Classifier\<close>: the mutex is not modelled, every operation runs alone. The field
  \<open>neighbourK\<close> is the source's field \<open>k\<close>.
\<close>

record Classifier =
  prototypes :: "Prototype list"
  neighbourK :: int
  usingExample :: bool
  modelPath :: string
  labelCategory :: "string \<rightharpoonup> string"
  labelMetadata :: "string \<rightharpoonup> (string \<rightharpoonup> string)"
  featureScaler :: "FeatureScaler option"

record ModelLabelStat =
  StatLabel :: string
  StatCategory :: string
  StatPrototypes :: nat

record ModelStats =
  PrototypeCount :: nat
  LabelCount :: nat
  Labels :: "ModelLabelStat list"
  UsingExample :: bool

text \<open>\<open>featureWeights\<close>: 2048 weights, all 1.0, set once by \<open>init\<close>.\<close>

definition featureWeights :: "real list" where
  "featureWeights = replicate 2048 1"

definition harmonicFeatureCount :: nat where
  "harmonicFeatureCount = 3"

section \<open>Strings (the parts of Go's library the classifier calls)\<close>

definition HasSuffix :: "string \<Rightarrow> string \<Rightarrow> bool" where
  "HasSuffix s suffix =
     (length suffix \<le> length s \<and> drop (length s - length suffix) s = suffix)"

definition TrimSuffix :: "string \<Rightarrow> string \<Rightarrow> string" where
  "TrimSuffix s suffix =
     (if HasSuffix s suffix then take (length s - length suffix) s else s)"

text \<open>
  \<open>filepath.Ext\<close>: walk back from the end of the path up to the last separator; the
  extension starts at the first dot met. The list is the path reversed, \<open>suffix\<close>
  what has been walked over.
\<close>

fun extLoop :: "string \<Rightarrow> string \<Rightarrow> string" where
  "extLoop [] suffix = []"
| "extLoop (c # r) suffix =
     (if c = CHR ''/'' then []
      else if c = CHR ''.'' then c # suffix
      else extLoop r (c # suffix))"

definition Ext :: "string \<Rightarrow> string" where
  "Ext path = extLoop (rev path) []"

text \<open>
  \<open>strings.EqualFold\<close>, on byte strings holding UTF-8. Two ASCII bytes match when they
  are equal or an upper-case letter and its lower-case form. Exactly two runes beyond
  ASCII fold to an ASCII letter: U+017F (bytes C5 BF) with \<open>s\<close> and \<open>S\<close>, and U+212A
  (bytes E2 84 AA) with \<open>k\<close> and \<open>K\<close>. Two runes beyond ASCII would need the Unicode
  folding tables and are compared byte by byte here; the classifier only ever compares
  against an ASCII literal, where the model is exact.
\<close>

definition asciiFoldEq :: "char \<Rightarrow> char \<Rightarrow> bool" where
  "asciiFoldEq c d =
     (let sr = min (of_char c) (of_char d) :: nat; tr = max (of_char c) (of_char d) :: nat
      in tr = sr \<or> (65 \<le> sr \<and> sr \<le> 90 \<and> tr = sr + 32))"

definition isLetterS :: "char \<Rightarrow> bool" where
  "isLetterS d = (d = CHR ''s'' \<or> d = CHR ''S'')"

definition isLetterK :: "char \<Rightarrow> bool" where
  "isLetterK d = (d = CHR ''k'' \<or> d = CHR ''K'')"

fun EqualFold :: "string \<Rightarrow> string \<Rightarrow> bool" where
  "EqualFold [] [] = True"
| "EqualFold [] (d # t) = False"
| "EqualFold (c # s) [] = False"
| "EqualFold (c # s) (d # t) =
     (if (of_char c :: nat) < 128 \<and> (of_char d :: nat) < 128
        then asciiFoldEq c d \<and> EqualFold s t
      else if (of_char d :: nat) < 128
        then (if (of_char c :: nat) = 197 \<and> isLetterS d
                then (case s of c2 # s' \<Rightarrow> (of_char c2 :: nat) = 191 \<and> EqualFold s' t
                      | [] \<Rightarrow> False)
              else if (of_char c :: nat) = 226 \<and> isLetterK d
                then (case s of c2 # c3 # s' \<Rightarrow>
                        (of_char c2 :: nat) = 132 \<and> (of_char c3 :: nat) = 170 \<and> EqualFold s' t
                      | _ \<Rightarrow> False)
              else False)
      else if (of_char c :: nat) < 128
        then (if (of_char d :: nat) = 197 \<and> isLetterS c
                then (case t of d2 # t' \<Rightarrow> (of_char d2 :: nat) = 191 \<and> EqualFold s t'
                      | [] \<Rightarrow> False)
              else if (of_char d :: nat) = 226 \<and> isLetterK c
                then (case t of d2 # d3 # t' \<Rightarrow>
                        (of_char d2 :: nat) = 132 \<and> (of_char d3 :: nat) = 170 \<and> EqualFold s t'
                      | _ \<Rightarrow> False)
              else False)
      else c = d \<and> EqualFold s t)"

section \<open>Drone decision\<close>

text \<open>Source: \<^verbatim>\<open>src/server/drone/template_matcher.go\<close>, the classifier part.\<close>

definition DetermineDroneLikelyWithSNR :: "Prediction list \<Rightarrow> real \<Rightarrow> real \<Rightarrow> bool" where
  "DetermineDroneLikelyWithSNR predictions baseThreshold snrDb =
     (case predictions of
        [] \<Rightarrow> False
      | best # _ \<Rightarrow>
          if EqualFold (PredCategory best) ''noise'' then False
          else (let threshold =
                      (if snrDb \<noteq> 0 then AdaptiveThreshold baseThreshold snrDb
                       else baseThreshold)
                in Confidence best \<ge> threshold))"

definition DetermineDroneLikely :: "Prediction list \<Rightarrow> real \<Rightarrow> bool" where
  "DetermineDroneLikely predictions threshold =
     DetermineDroneLikelyWithSNR predictions threshold 0"

text \<open>
  Lower-casing of ASCII letters, to say what \<open>EqualFold\<close> decides on ASCII strings.
\<close>

definition asciiLower :: "char \<Rightarrow> char" where
  "asciiLower c =
     (if 65 \<le> (of_char c :: nat) \<and> (of_char c :: nat) \<le> 90
      then char_of ((of_char c :: nat) + 32) else c)"

definition isASCII :: "string \<Rightarrow> bool" where
  "isASCII s = list_all (\<lambda>ch. (of_char ch :: nat) < 128) s"

section \<open>Vectors and feature scaling\<close>

text \<open>
  Source: \<^verbatim>\<open>src/unnamed/part_002\<close> for the normalisation and
  \<^verbatim>\<open>src/server/main.go\<close>, the scaler part, for the scaler.
\<close>

text \<open>\<open>NormaliseVectorInPlace\<close>: the slice after the call.\<close>

definition NormaliseVectorInPlace :: "real list \<Rightarrow> real list" where
  "NormaliseVectorInPlace vector =
     (let sumSquares = sum_list (map (\<lambda>v. v * v) vector)
      in if sumSquares = 0 then vector
         else (let factor = 1 / sqrt sumSquares in map (\<lambda>v. v * factor) vector))"

text \<open>
  \<open>NewFeatureScalerFromPrototypes\<close>. The first loop adds every prototype's features
  into \<open>mean\<close> and stops with an error at a prototype of another length; the second
  adds the squared deviations into \<open>stddev\<close>.
\<close>

fun meanLoop :: "nat \<Rightarrow> Prototype list \<Rightarrow> real list \<Rightarrow> error + real list" where
  "meanLoop featureCount [] mean = Inr mean"
| "meanLoop featureCount (proto # rest) mean =
     (if length (Features proto) \<noteq> featureCount then Inl InconsistentFeatureDimensions
      else meanLoop featureCount rest (map (\<lambda>(m, val). m + val) (zip mean (Features proto))))"

fun stddevLoop :: "real list \<Rightarrow> Prototype list \<Rightarrow> real list \<Rightarrow> real list" where
  "stddevLoop mean [] stddev = stddev"
| "stddevLoop mean (proto # rest) stddev =
     stddevLoop mean rest
       (map (\<lambda>(s, val, m). s + (val - m) * (val - m))
            (zip stddev (zip (Features proto) mean)))"

definition NewFeatureScalerFromPrototypes :: "Prototype list \<Rightarrow> error + FeatureScaler" where
  "NewFeatureScalerFromPrototypes protos =
     (case protos of
        [] \<Rightarrow> Inl NoPrototypesProvided
      | first # _ \<Rightarrow>
          (let featureCount = length (Features first)
           in if featureCount = 0 then Inl PrototypesHaveNoFeatures
              else (case meanLoop featureCount protos (replicate featureCount 0) of
                      Inl e \<Rightarrow> Inl e
                    | Inr totals \<Rightarrow>
                        (let n = real (length protos);
                             mean = map (\<lambda>m. m / n) totals;
                             squares = stddevLoop mean protos (replicate featureCount 0);
                             stddev = map (\<lambda>s. let sd = sqrt (s / n)
                                               in if sd < 1 / 10 ^ 10 then 1 else sd) squares
                         in Inr \<lparr>Mean = mean, Stddev = stddev\<rparr>))))"

text \<open>
  \<open>Transform\<close>. A scaler holds as many deviations as means (the constructor builds
  both with \<open>featureCount\<close> entries), so \<open>Stddev fs ! i\<close> is in range.
\<close>

definition Transform :: "FeatureScaler \<Rightarrow> real list \<Rightarrow> real list" where
  "Transform fs features =
     (if length features \<noteq> length (Mean fs) then features
      else map (\<lambda>i. (features ! i - Mean fs ! i) / Stddev fs ! i) [0..<length features])"

text \<open>
  The statistics of the specification, written from its words: the arithmetic mean,
  the sample standard deviation (divisor \<open>n - 1\<close>) and the population standard
  deviation (divisor \<open>n\<close>) of a list of values.
\<close>

definition spec_mean :: "real list \<Rightarrow> real" where
  "spec_mean xs = sum_list xs / real (length xs)"

definition spec_sample_stddev :: "real list \<Rightarrow> real" where
  "spec_sample_stddev xs =
     sqrt (sum_list (map (\<lambda>x. (x - spec_mean xs) ^ 2) xs) / (real (length xs) - 1))"

definition spec_population_stddev :: "real list \<Rightarrow> real" where
  "spec_population_stddev xs =
     sqrt (sum_list (map (\<lambda>x. (x - spec_mean xs) ^ 2) xs) / real (length xs))"

definition column :: "Prototype list \<Rightarrow> nat \<Rightarrow> real list" where
  "column protos i = map (\<lambda>p. Features p ! i) protos"

section \<open>Cosine similarity and k-nearest prototypes\<close>

text \<open>
  \<open>cosineSimilarity\<close>: one pass over the first \<open>min (len a) (len b)\<close> indices with the
  three accumulators, then the guard on the norms.
\<close>

definition cosineStep :: "real list \<Rightarrow> real list \<Rightarrow> real list \<Rightarrow> nat
    \<Rightarrow> real \<times> real \<times> real \<Rightarrow> real \<times> real \<times> real" where
  "cosineStep a b weights i acc =
     (let (dotProduct, normA, normB) = acc;
          weight = (if i < length weights then weights ! i else 1);
          weightedA = a ! i * weight;
          weightedB = b ! i * weight
      in (dotProduct + weightedA * weightedB,
          normA + weightedA * weightedA,
          normB + weightedB * weightedB))"

definition cosineSimilarity :: "real list \<Rightarrow> real list \<Rightarrow> real list \<Rightarrow> real" where
  "cosineSimilarity a b weights =
     (let limit = min (length a) (length b);
          (dotProduct, normA, normB) = fold (cosineStep a b weights) [0..<limit] (0, 0, 0)
      in if normA = 0 \<or> normB = 0 then 0
         else dotProduct / (sqrt normA * sqrt normB))"

text \<open>
  \<open>sort.Slice\<close> is not stable: the order it gives to elements that compare equal is
  not specified. The model sorts by stable insertion; no property below depends on
  the order among such elements.
\<close>

fun insertSlice :: "('a \<Rightarrow> 'a \<Rightarrow> bool) \<Rightarrow> 'a \<Rightarrow> 'a list \<Rightarrow> 'a list" where
  "insertSlice lt x [] = [x]"
| "insertSlice lt x (y # ys) =
     (if lt y x then y # insertSlice lt x ys else x # y # ys)"

definition sortSlice :: "('a \<Rightarrow> 'a \<Rightarrow> bool) \<Rightarrow> 'a list \<Rightarrow> 'a list" where
  "sortSlice lt xs = foldr (insertSlice lt) xs []"

text \<open>
  The per-label accumulator of \<open>Predict\<close> (the anonymous struct of \<open>labelScores\<close>). The
  Go map is kept as an association list in order of first insertion; Go iterates it
  in no fixed order, and the predictions are sorted afterwards.
\<close>

record labelStats =
  weightSum :: real
  distSum :: real
  statCount :: nat
  statPrototypes :: "PrototypeScore list"

definition emptyStats :: labelStats where
  "emptyStats = \<lparr>weightSum = 0, distSum = 0, statCount = 0, statPrototypes = []\<rparr>"

definition neighbourStep :: "Prototype list \<Rightarrow> nat \<times> real
    \<Rightarrow> (string \<times> labelStats) list \<times> real \<Rightarrow> (string \<times> labelStats) list \<times> real" where
  "neighbourStep protos neighbor acc =
     (let (labelScores, totalWeight) = acc;
          (index, distance) = neighbor;
          weight = 1 / (distance + 1 / 10 ^ 9);
          label = Label (protos ! index);
          stats = (case map_of labelScores label of None \<Rightarrow> emptyStats | Some st \<Rightarrow> st);
          stats' = stats
            \<lparr>weightSum := weightSum stats + weight,
             distSum := distSum stats + distance,
             statCount := statCount stats + 1,
             statPrototypes := statPrototypes stats @
               [\<lparr>ScoreID = ID (protos ! index), Distance = distance, Weight = weight,
                 ScoreSource = Source (protos ! index)\<rparr>]\<rparr>
      in (AList.update label stats' labelScores, totalWeight + weight))"

definition makePrediction :: "Classifier \<Rightarrow> real \<Rightarrow> string \<times> labelStats \<Rightarrow> Prediction" where
  "makePrediction c totalWeight entry =
     (let (label, stats) = entry;
          labelMeta = labelMetadata c label;
          description =
            (case labelMeta of
               None \<Rightarrow> []
             | Some m \<Rightarrow> (case m ''description'' of None \<Rightarrow> [] | Some d \<Rightarrow> d));
          confidence = (if totalWeight > 0 then weightSum stats / totalWeight else 0);
          avgDist = (if statCount stats > 0 then distSum stats / real (statCount stats) else 0)
      in \<lparr>PredLabel = label,
          PredCategory = (case labelCategory c label of None \<Rightarrow> [] | Some cat \<Rightarrow> cat),
          PredDescription = description,
          Confidence = confidence,
          AverageDist = avgDist,
          Support = statCount stats,
          TopPrototypes = statPrototypes stats,
          PredMetadata = labelMeta\<rparr>)"

definition predictionLess :: "Prediction \<Rightarrow> Prediction \<Rightarrow> bool" where
  "predictionLess p q =
     (if \<bar>Confidence p - Confidence q\<bar> > 1 / 10 ^ 9 then Confidence p > Confidence q
      else AverageDist p < AverageDist q)"

text \<open>
  The first block of \<open>Predict\<close>: the query as the distance loop sees it. It is scaled
  and normalised when the store has a scaler and the query is not 2048 long.
\<close>

definition scaleQuery :: "Classifier \<Rightarrow> real list \<Rightarrow> real list" where
  "scaleQuery c features =
     (case featureScaler c of
        Some scaler \<Rightarrow>
          if length features \<noteq> 2048 then NormaliseVectorInPlace (Transform scaler features)
          else features
      | None \<Rightarrow> features)"

definition prototypeDistances :: "real list \<Rightarrow> Prototype list \<Rightarrow> (nat \<times> real) list" where
  "prototypeDistances features protos =
     map (\<lambda>i. (i, 1 - cosineSimilarity features (Features (protos ! i)) featureWeights))
         [0..<length protos]"

definition Predict :: "Classifier \<Rightarrow> real list \<Rightarrow> error + Prediction list" where
  "Predict c query =
     (if query = [] then Inl EmptyFeatureVector
      else (let features = scaleQuery c query; protos = prototypes c
            in if protos = [] then Inr []
               else (let k = (if int (length protos) < neighbourK c
                              then max 1 (int (length protos)) else neighbourK c);
                         distances = sortSlice (\<lambda>p q. snd p < snd q)
                                       (prototypeDistances features protos);
                         (labelScores, totalWeight) =
                            fold (neighbourStep protos) (take (nat k) distances) ([], 0)
                     in if totalWeight = 0 then Inr []
                        else Inr (sortSlice predictionLess
                                    (map (makePrediction c totalWeight) labelScores)))))"

section \<open>Predicates used in the proofs\<close>

text \<open>
  \<open>wAt\<close> is the weight the cosine loop reads at an index. \<open>scoresOK\<close> is the invariant of
  the neighbour loop of \<open>Predict\<close>: every label entry counts its scores, sums their
  weights and distances, and the entries' weights add up to the running total.
\<close>

definition wAt :: "real list \<Rightarrow> nat \<Rightarrow> real" where
  "wAt weights i = (if i < length weights then weights ! i else 1)"

definition scoreOK :: "real set \<Rightarrow> PrototypeScore \<Rightarrow> bool" where
  "scoreOK D s = (Distance s \<in> D \<and> Weight s = 1 / (Distance s + 1 / 10 ^ 9))"

definition statsOK :: "real set \<Rightarrow> labelStats \<Rightarrow> bool" where
  "statsOK D st =
     (statPrototypes st \<noteq> []
      \<and> statCount st = length (statPrototypes st)
      \<and> weightSum st = sum_list (map Weight (statPrototypes st))
      \<and> distSum st = sum_list (map Distance (statPrototypes st))
      \<and> list_all (scoreOK D) (statPrototypes st))"

definition scoresOK :: "real set \<Rightarrow> (string \<times> labelStats) list \<times> real \<Rightarrow> bool" where
  "scoresOK D acc =
     (list_all (\<lambda>e. statsOK D (snd e)) (fst acc)
      \<and> sum_list (map (\<lambda>e. weightSum (snd e)) (fst acc)) = snd acc)"

text \<open>
  \<open>neighbourAcc\<close> names the two accumulators of \<open>Predict\<close> (the label scores and the
  total weight) after the neighbour loop; \<open>unitPrediction\<close> describes a prediction that
  lists at least one neighbour, counts its neighbours in \<open>Support\<close>, and all of whose
  neighbours lie at distance 1 with weight \<open>1 / (1 + 1e-9)\<close>.
\<close>

definition neighbourAcc :: "Classifier \<Rightarrow> real list \<Rightarrow> (string \<times> labelStats) list \<times> real" where
  "neighbourAcc c query =
     (let protos = prototypes c;
          k = (if int (length protos) < neighbourK c
               then max 1 (int (length protos)) else neighbourK c)
      in fold (neighbourStep protos)
           (take (nat k) (sortSlice (\<lambda>p q. snd p < snd q)
                                    (prototypeDistances (scaleQuery c query) protos)))
           ([], 0))"



section \<open>Example stores\<close>

text \<open>\<open>exampleStore\<close>: two prototypes of two features and no scaler.\<close>

definition exampleStore :: Classifier where
  "exampleStore =
     \<lparr>prototypes =
        [\<lparr>ID = ''a1'', Label = ''alpha'', Category = ''drone'', Description = [],
          Source = ''a.wav'', Features = [1, 0], Metadata = Map.empty\<rparr>,
         \<lparr>ID = ''b1'', Label = ''beta'', Category = ''noise'', Description = [],
          Source = ''b.wav'', Features = [0, 1], Metadata = Map.empty\<rparr>],
      neighbourK = 2, usingExample = False, modelPath = ''prototypes.json'',
      labelCategory = [''alpha'' \<mapsto> ''drone'', ''beta'' \<mapsto> ''noise''],
      labelMetadata = Map.empty, featureScaler = None\<rparr>"

text \<open>\<open>rawPair\<close>: two raw prototypes of one feature, with values 0 and 2.\<close>

definition rawPair :: "Prototype list" where
  "rawPair =
     [\<lparr>ID = ''p0'', Label = ''alpha'', Category = ''drone'', Description = [],
       Source = [], Features = [0], Metadata = Map.empty\<rparr>,
      \<lparr>ID = ''p2'', Label = ''alpha'', Category = ''drone'', Description = [],
       Source = [], Features = [2], Metadata = Map.empty\<rparr>]"

section \<open>Prototype store: ingest, persistence and loading\<close>

text \<open>
  Source: the classifier part of \<^verbatim>\<open>src/server/drone/template_matcher.go\<close> and the
  prototype upload handler of \<^verbatim>\<open>src/server/cmdHandlers.go\<close>.
\<close>

text \<open>
  \<open>AddPrototype\<close>. \<open>preparePrototype\<close> is its first half, run before the write lock:
  the features are scaled when the store has a scaler, normalised, and the metadata
  copied, with the description added under the key "description" when that key is
  free. The second half appends the prototype and updates the label maps.
\<close>

definition preparePrototype :: "FeatureScaler option \<Rightarrow> Prototype \<Rightarrow> Prototype" where
  "preparePrototype scaler proto =
     (let features = (case scaler of
                        Some fs \<Rightarrow> Transform fs (Features proto)
                      | None \<Rightarrow> Features proto);
          features' = NormaliseVectorInPlace features;
          metadataCopy =
            (if Description proto \<noteq> [] \<and> Metadata proto ''description'' = None
             then (Metadata proto)(''description'' \<mapsto> Description proto)
             else Metadata proto)
      in proto\<lparr>Features := features', Metadata := metadataCopy\<rparr>)"

definition AddPrototype :: "Classifier \<Rightarrow> Prototype \<Rightarrow> Classifier \<times> (error + Prototype)" where
  "AddPrototype c proto0 =
     (if Features proto0 = [] then (c, Inl PrototypeHasNoFeatures)
      else (let proto = preparePrototype (featureScaler c) proto0;
                c1 = c\<lparr>prototypes := prototypes c @ [proto]\<rparr>;
                c2 = (if Label proto \<noteq> [] then
                        (let c1a = (if Category proto \<noteq> []
                                    then c1\<lparr>labelCategory :=
                                              (labelCategory c1)(Label proto \<mapsto> Category proto)\<rparr>
                                    else c1);
                             old = (case labelMetadata c1a (Label proto) of
                                      None \<Rightarrow> Map.empty | Some m \<Rightarrow> m)
                         in c1a\<lparr>labelMetadata :=
                                  (labelMetadata c1a)(Label proto \<mapsto> old ++ Metadata proto)\<rparr>)
                      else c1)
            in (c2\<lparr>usingExample := False\<rparr>, Inr proto)))"

text \<open>
  The upload handler's loop over the files of one request, from the built prototype
  on: a prototype that \<open>AddPrototype\<close> refuses is logged and skipped, the others are
  collected in \<open>added\<close>.
\<close>

fun uploadLoop :: "Classifier \<Rightarrow> Prototype list \<Rightarrow> Prototype list
    \<Rightarrow> Classifier \<times> Prototype list" where
  "uploadLoop c [] added = (c, added)"
| "uploadLoop c (prototype # rest) added =
     (case AddPrototype c prototype of
        (c', Inl err) \<Rightarrow> uploadLoop c' rest added
      | (c', Inr stored) \<Rightarrow> uploadLoop c' rest (added @ [stored]))"

text \<open>
  Files. A file holds either a JSON array of prototypes or something else;
  \<open>json.MarshalIndent\<close> followed by \<open>json.Unmarshal\<close> is taken to give the prototypes
  back. Reading fails exactly on a missing file; creating the directory, writing and
  renaming are taken to succeed.
\<close>

datatype fileData = PrototypesJSON "Prototype list" | NotPrototypesJSON

type_synonym files = "string \<rightharpoonup> fileData"

definition SavePrototypesToFile :: "Classifier \<Rightarrow> files \<Rightarrow> error + (Classifier \<times> files)" where
  "SavePrototypesToFile c fs =
     (if modelPath c = [] then Inl ModelPathNotSet
      else (let tempPath = modelPath c @ ''.tmp'';
                data = PrototypesJSON (prototypes c);
                written = fs(tempPath \<mapsto> data);
                renamed = (written(modelPath c := written tempPath))(tempPath := None)
            in Inr (c\<lparr>usingExample := False\<rparr>, renamed)))"

text \<open>
  The validation loop of \<open>NewClassifierFromFile\<close>, with the label maps and the count of
  prototypes whose last three features are zero.
\<close>

fun loadLoop :: "nat \<Rightarrow> Prototype list
    \<Rightarrow> (string \<rightharpoonup> string) \<times> (string \<rightharpoonup> (string \<rightharpoonup> string)) \<times> nat
    \<Rightarrow> error + ((string \<rightharpoonup> string) \<times> (string \<rightharpoonup> (string \<rightharpoonup> string)) \<times> nat)" where
  "loadLoop expectedFeatureCount [] acc = Inr acc"
| "loadLoop expectedFeatureCount (proto # rest) (labelCat, labelMeta, zeroHarmonicCount) =
     (if Features proto = [] then Inl PrototypeHasNoFeatures
      else if Label proto = [] then Inl PrototypeMissingLabel
      else if length (Features proto) \<noteq> expectedFeatureCount
        then Inl PrototypeWrongFeatureCount
      else if length (Features proto) < harmonicFeatureCount
        then Inl PrototypeInsufficientHarmonic
      else (let harmonicSlice =
                  drop (length (Features proto) - harmonicFeatureCount) (Features proto);
                allZero = list_all (\<lambda>v. v = 0) harmonicSlice;
                zeroHarmonicCount' =
                  (if allZero then zeroHarmonicCount + 1 else zeroHarmonicCount);
                labelCat' = (if labelCat (Label proto) = None
                             then labelCat(Label proto \<mapsto> Category proto) else labelCat);
                old = (case labelMeta (Label proto) of None \<Rightarrow> Map.empty | Some m \<Rightarrow> m);
                labelMeta' = labelMeta(Label proto \<mapsto> old ++ Metadata proto)
            in loadLoop expectedFeatureCount rest (labelCat', labelMeta', zeroHarmonicCount')))"

text \<open>
  The scaler block of \<open>NewClassifierFromFile\<close>: no scaler for an empty set or for
  2048 features; otherwise the scaler is fitted and every prototype scaled and
  normalised, and a failed fit leaves the raw features.
\<close>

definition fitAndScale :: "Prototype list \<Rightarrow> FeatureScaler option \<times> Prototype list" where
  "fitAndScale protos =
     (case protos of
        [] \<Rightarrow> (None, protos)
      | first # _ \<Rightarrow>
          if length (Features first) = 2048 then (None, protos)
          else (case NewFeatureScalerFromPrototypes protos of
                  Inl err \<Rightarrow> (None, protos)
                | Inr fs \<Rightarrow>
                    (Some fs,
                     map (\<lambda>p. p\<lparr>Features := NormaliseVectorInPlace (Transform fs (Features p))\<rparr>)
                         protos)))"

text \<open>
  \<open>NewClassifierFromFile\<close>. The argument \<open>path\<close> is the path after \<open>filepath.Clean\<close>.
\<close>

definition NewClassifierFromFile :: "files \<Rightarrow> string \<Rightarrow> int \<Rightarrow> error + Classifier" where
  "NewClassifierFromFile fs path k =
     (if k \<le> 0 then Inl InvalidNeighbourCount
      else (case (case fs path of
                    Some data \<Rightarrow> Some (data, path)
                  | None \<Rightarrow>
                      (let ext = Ext path;
                           base = TrimSuffix path ext;
                           fallbackPath = base @ ''.example'' @ ext
                       in case fs fallbackPath of
                            None \<Rightarrow> None
                          | Some data \<Rightarrow> Some (data, fallbackPath))) of
              None \<Rightarrow> Inl FailedToLoadPrototypes
            | Some (NotPrototypesJSON, resolvedPath) \<Rightarrow> Inl UnableToParsePrototypes
            | Some (PrototypesJSON protos, resolvedPath) \<Rightarrow>
                (case loadLoop (length featureWeights) protos (Map.empty, Map.empty, 0) of
                   Inl err \<Rightarrow> Inl err
                 | Inr (labelCat, labelMeta, zeroHarmonicCount) \<Rightarrow>
                     (let (scaler, protos') = fitAndScale protos;
                          example = HasSuffix resolvedPath ''.example'';
                          model = (if example then TrimSuffix resolvedPath ''.example''
                                   else resolvedPath);
                          k' = (if protos' \<noteq> [] \<and> k > int (length protos')
                                then int (length protos') else k)
                      in Inr \<lparr>prototypes = protos', neighbourK = k', usingExample = example,
                               modelPath = model, labelCategory = labelCat,
                               labelMetadata = labelMeta, featureScaler = scaler\<rparr>))))"

text \<open>\<open>Stats\<close>: the labels sorted, each with the category of its last prototype.\<close>

definition Stats :: "Classifier \<Rightarrow> ModelStats" where
  "Stats c =
     (let protos = prototypes c;
          labels = sort (remdups (map Label protos))
      in \<lparr>PrototypeCount = length protos,
          LabelCount = length labels,
          Labels = map (\<lambda>l. \<lparr>StatLabel = l,
                              StatCategory = Category (last (filter (\<lambda>p. Label p = l) protos)),
                              StatPrototypes = length (filter (\<lambda>p. Label p = l) protos)\<rparr>)
                       labels,
          UsingExample = usingExample c\<rparr>)"

text \<open>
  The end of the upload handler (\<open>newPrototypeUploadHandler\<close> in
  \<^verbatim>\<open>src/server/cmdHandlers.go\<close>): after the loop the store is saved when at least one
  prototype was added; a failed save is logged and the prototypes stay in memory.
\<close>

definition uploadHandler :: "Classifier \<Rightarrow> Prototype list \<Rightarrow> files
    \<Rightarrow> Classifier \<times> files \<times> Prototype list" where
  "uploadHandler c uploads fs =
     (case uploadLoop c uploads [] of
        (c', added) \<Rightarrow>
          if added \<noteq> [] then
            (case SavePrototypesToFile c' fs of
               Inl err \<Rightarrow> (c', fs, added)
             | Inr (saved, fs') \<Rightarrow> (saved, fs', added))
          else (c', fs, added))"


text \<open>
  \<open>embedding\<close>: a prototype of 2048 features, the size of an embedding;
  \<open>embeddingFiles\<close>: a disk that holds it in the default model file. \<open>upload19\<close>: a
  prototype of 19 features, the size of the vector that \<open>ExtractFeatureVector\<close> returns
  and that the upload handler builds from an audio file.
\<close>

definition embedding :: Prototype where
  "embedding =
     \<lparr>ID = ''e1'', Label = ''alpha'', Category = ''drone'', Description = [],
      Source = ''e.wav'', Features = 1 # replicate 2047 0, Metadata = Map.empty\<rparr>"

definition embeddingFiles :: files where
  "embeddingFiles = [''drone/prototypes.json'' \<mapsto> PrototypesJSON [embedding]]"

definition upload19 :: Prototype where
  "upload19 =
     \<lparr>ID = ''u1'', Label = ''beta'', Category = ''drone'', Description = [],
      Source = ''u.wav'', Features = 1 # replicate 18 0, Metadata = Map.empty\<rparr>"

section \<open>Feature extraction\<close>

text \<open>
  Source: \<^verbatim>\<open>src/unnamed/part_002\<close> and, for the transform,
  \<^verbatim>\<open>src/server/shazam/fft.go\<close>.
\<close>

text \<open>
  The spectrum functions take the magnitudes and the bin frequencies;
  \<open>computeSpectrum\<close> builds both with \<open>binCount\<close> entries, so a loop over the
  magnitudes that reads \<open>freqs[i]\<close> is a loop over the pairs.
\<close>

definition clamp01 :: "real \<Rightarrow> real" where
  "clamp01 x = (if x < 0 then 0 else if x > 1 then 1 else x)"

definition rootMeanSquare :: "real list \<Rightarrow> real" where
  "rootMeanSquare samples =
     (if samples = [] then 0
      else sqrt (sum_list (map (\<lambda>v. v * v) samples) / real (length samples)))"

definition zeroCrossingRate :: "real list \<Rightarrow> real" where
  "zeroCrossingRate samples =
     (if length samples \<le> 1 then 0
      else real (length (filter
                   (\<lambda>i. \<not> (samples ! (i - 1) = 0 \<or> samples ! i = 0)
                        \<and> (samples ! (i - 1) > 0) \<noteq> (samples ! i > 0))
                   [1..<length samples]))
           / real (length samples - 1))"

definition signalVariance :: "real list \<Rightarrow> real" where
  "signalVariance samples =
     (if samples = [] then 0
      else (let mean = sum_list samples / real (length samples)
            in sum_list (map (\<lambda>v. (v - mean) * (v - mean)) samples) / real (length samples)))"

text \<open>
  \<open>nextPowerOfTwo\<close>: the power doubles while it is below \<open>n\<close>. It starts at 1, so
  the test \<open>0 < pw\<close>, which the recursion needs to end, is always true.
\<close>

function nextPowerLoop :: "nat \<Rightarrow> nat \<Rightarrow> nat" where
  "nextPowerLoop pw n =
     (if 0 < pw \<and> pw < n then nextPowerLoop (2 * pw) n else pw)"
  by pat_completeness auto
termination
  by (relation "measure (\<lambda>(pw, n). n - pw)") auto

declare nextPowerLoop.simps [simp del]

definition nextPowerOfTwo :: "nat \<Rightarrow> nat" where
  "nextPowerOfTwo n = (if n = 0 then 1 else nextPowerLoop 1 n)"

definition applyHannWindow :: "real list \<Rightarrow> real list" where
  "applyHannWindow buffer =
     (if length buffer \<le> 1 then buffer
      else map (\<lambda>i. buffer ! i
                     * (5 / 10 * (1 - cos ((2 * pi * real i) / real (length buffer - 1)))))
               [0..<length buffer])"

text \<open>
  \<open>recursiveFFT\<close>: the even and the odd half are transformed and combined with the
  twiddle factors. For an odd length above 1 the last entry of the result stays 0.
\<close>

function recursiveFFT :: "complex list \<Rightarrow> complex list" where
  "recursiveFFT complexArray =
     (if length complexArray \<le> 1 then complexArray
      else (let N = length complexArray;
                evens = recursiveFFT (map (\<lambda>i. complexArray ! (2 * i)) [0..<N div 2]);
                odds = recursiveFFT (map (\<lambda>i. complexArray ! (2 * i + 1)) [0..<N div 2]);
                t = (\<lambda>k. Complex (cos (- 2 * pi * real k / real N))
                                 (sin (- 2 * pi * real k / real N)))
            in map (\<lambda>k. evens ! k + t k * odds ! k) [0..<N div 2]
               @ map (\<lambda>k. evens ! k - t k * odds ! k) [0..<N div 2]
               @ replicate (N - 2 * (N div 2)) 0))"
  by pat_completeness auto
termination
  by (relation "measure length") auto

declare recursiveFFT.simps [simp del]

definition FFT :: "real list \<Rightarrow> complex list" where
  "FFT input = recursiveFFT (map (\<lambda>v. Complex v 0) input)"

definition computeSpectrum :: "real list \<Rightarrow> int \<Rightarrow> real list \<times> real list" where
  "computeSpectrum samples sampleRate =
     (let fftSize = nextPowerOfTwo (length samples);
          buffer = applyHannWindow (samples @ replicate (fftSize - length samples) 0);
          fft = FFT buffer;
          binCount = fftSize div 2
      in (map (\<lambda>i. cmod (fft ! i)) [0..<binCount],
          map (\<lambda>i. real i * real_of_int sampleRate / real fftSize) [0..<binCount]))"

definition spectralCentroid :: "real list \<Rightarrow> real list \<Rightarrow> real" where
  "spectralCentroid magnitude freqs =
     (let weightedSum = sum_list (map (\<lambda>(mag, f). mag * f) (zip magnitude freqs));
          total = sum_list magnitude
      in if total = 0 then 0 else weightedSum / total)"

definition spectralBandwidth :: "real list \<Rightarrow> real list \<Rightarrow> real \<Rightarrow> real" where
  "spectralBandwidth magnitude freqs centroid =
     (let variance = sum_list (map (\<lambda>(mag, f). mag * (f - centroid) * (f - centroid))
                                    (zip magnitude freqs));
          total = sum_list magnitude
      in if total = 0 then 0 else sqrt (variance / total))"

fun rolloffScan :: "real \<Rightarrow> real \<Rightarrow> (real \<times> real) list \<Rightarrow> real option" where
  "rolloffScan target cumulative [] = None"
| "rolloffScan target cumulative ((mag, f) # rest) =
     (if cumulative + mag \<ge> target then Some f
      else rolloffScan target (cumulative + mag) rest)"

definition spectralRolloff :: "real list \<Rightarrow> real list \<Rightarrow> real \<Rightarrow> real" where
  "spectralRolloff magnitude freqs threshold0 =
     (if magnitude = [] then 0
      else (let threshold = (if threshold0 \<le> 0 \<or> threshold0 \<ge> 1 then 85 / 100
                             else threshold0);
                total = sum_list magnitude
            in if total = 0 then last freqs
               else (case rolloffScan (threshold * total) 0 (zip magnitude freqs) of
                       Some f \<Rightarrow> f
                     | None \<Rightarrow> last freqs)))"

text \<open>
  \<open>spectralFlatness\<close> returns the quotient of the geometric and the arithmetic mean as
  it is computed, without a clamp. Over the reals the quotient is at most 1; in
  \<open>float64\<close> the rounding of \<open>math.Exp\<close> and \<open>math.Log\<close> can leave it just above 1 (for an
  all-zero spectrum the code computes \<open>exp (log 1e-12) / 1e-12\<close>), so the properties
  below state only that it is not negative.
\<close>

definition spectralFlatness :: "real list \<Rightarrow> real" where
  "spectralFlatness magnitude =
     (if magnitude = [] then 0
      else (let logSum = sum_list (map (\<lambda>mag. ln (mag + 1 / 10 ^ 12)) magnitude);
                arithmetic = sum_list (map (\<lambda>mag. mag + 1 / 10 ^ 12) magnitude);
                geomCount = real (length magnitude);
                geoMean = exp (logSum / geomCount);
                ariMean = arithmetic / geomCount
            in if ariMean = 0 then 0 else geoMean / ariMean))"

definition spectralCrestFactor :: "real list \<Rightarrow> real" where
  "spectralCrestFactor magnitude =
     (if magnitude = [] then 0
      else (let maxVal = fold (\<lambda>mag m. if mag > m then mag else m) magnitude (magnitude ! 0);
                mean = sum_list magnitude / real (length magnitude)
            in if mean = 0 then 0 else maxVal / mean))"

definition spectralEntropy :: "real list \<Rightarrow> real" where
  "spectralEntropy magnitude =
     (if magnitude = [] then 0
      else (let powerSum = sum_list (map (\<lambda>mag. mag * mag) magnitude)
            in if powerSum = 0 then 0
               else (let probabilities = map (\<lambda>mag. (mag * mag) / powerSum) magnitude;
                         entropy = fold (\<lambda>p e. if p > 0 then e - p * log 2 p else e)
                                        probabilities 0
                     in entropy / log 2 (real (length magnitude)))))"

definition dominantFrequency :: "real list \<Rightarrow> real list \<Rightarrow> real" where
  "dominantFrequency magnitude freqs =
     (if magnitude = [] then 0
      else (let (idx, maxVal) =
                  fold (\<lambda>i (idx, maxVal).
                          if magnitude ! i > maxVal then (i, magnitude ! i) else (idx, maxVal))
                       [0..<length magnitude] (0, magnitude ! 0)
            in freqs ! idx))"

text \<open>
  Go's conversion of a float to \<open>int\<close> cuts the fraction off.
\<close>

definition truncInt :: "real \<Rightarrow> int" where
  "truncInt x = (if 0 \<le> x then \<lfloor>x\<rfloor> else \<lceil>x\<rceil>)"

text \<open>
  \<open>harmonicFeatures\<close>: the loop over the harmonics 1 to 10 ends early at the first
  harmonic at or above half the sample rate, or whose bin is outside the spectrum.
\<close>

fun harmonicLoop :: "real list \<Rightarrow> real \<Rightarrow> int \<Rightarrow> real \<Rightarrow> int \<Rightarrow> real
    \<Rightarrow> nat list \<Rightarrow> real \<times> real list \<Rightarrow> real \<times> real list" where
  "harmonicLoop magnitude fundamentalFreq sampleRate freqResolution searchWindowSize avgMag
       [] acc = acc"
| "harmonicLoop magnitude fundamentalFreq sampleRate freqResolution searchWindowSize avgMag
       (h # hs) (harmonicEnergy, harmonicMagnitudes) =
     (let targetFreq = fundamentalFreq * real h
      in if targetFreq \<ge> real_of_int sampleRate / 2
           then (harmonicEnergy, harmonicMagnitudes)
         else (let targetBin = truncInt (targetFreq / freqResolution)
               in if targetBin \<ge> int (length magnitude)
                    then (harmonicEnergy, harmonicMagnitudes)
                  else (let startBin = (if targetBin - searchWindowSize < 0 then 0
                                        else targetBin - searchWindowSize);
                            endBin = (if targetBin + searchWindowSize \<ge> int (length magnitude)
                                      then int (length magnitude) - 1
                                      else targetBin + searchWindowSize);
                            maxMag = fold (\<lambda>i m. if magnitude ! nat i > m
                                                   then magnitude ! nat i else m)
                                          [startBin..endBin] 0
                        in if maxMag > avgMag * (15 / 10)
                             then harmonicLoop magnitude fundamentalFreq sampleRate
                                    freqResolution searchWindowSize avgMag hs
                                    (harmonicEnergy + maxMag * maxMag,
                                     harmonicMagnitudes @ [maxMag])
                           else harmonicLoop magnitude fundamentalFreq sampleRate
                                    freqResolution searchWindowSize avgMag hs
                                    (harmonicEnergy, harmonicMagnitudes))))"

definition harmonicFeatures :: "real list \<Rightarrow> real list \<Rightarrow> real \<Rightarrow> int
    \<Rightarrow> real \<times> real \<times> real" where
  "harmonicFeatures magnitude freqs fundamentalFreq sampleRate =
     (if magnitude = [] \<or> fundamentalFreq \<le> 0 then (0, 0, 0)
      else (let totalEnergy = sum_list (map (\<lambda>mag. mag * mag) magnitude);
                sumMag = sum_list magnitude
            in if totalEnergy = 0 then (0, 0, 0)
               else (let avgMag = sumMag / real (length magnitude);
                         freqResolution =
                           real_of_int sampleRate / real (length magnitude * 2);
                         maxPossibleMag =
                           fold (\<lambda>mag m. if mag > m then mag else m) magnitude 0;
                         tolerance = fundamentalFreq * (1 / 10);
                         window0 = truncInt (tolerance / freqResolution);
                         searchWindowSize =
                           (if window0 < 1 then 1 else if window0 > 10 then 10 else window0);
                         (harmonicEnergy, harmonicMagnitudes) =
                           harmonicLoop magnitude fundamentalFreq sampleRate freqResolution
                             searchWindowSize avgMag [1..<11] (0, []);
                         harmonicRatio = harmonicEnergy / totalEnergy;
                         count0 = real (length harmonicMagnitudes) / 10;
                         harmonicCount = (if count0 > 1 then 1 else count0);
                         harmonicStrength =
                           (if harmonicMagnitudes \<noteq> [] \<and> maxPossibleMag > 0
                            then (sum_list harmonicMagnitudes
                                    / real (length harmonicMagnitudes)) / maxPossibleMag
                            else 0)
                     in (harmonicRatio, harmonicCount, harmonicStrength))))"

definition temporalCentroid :: "real list \<Rightarrow> int \<Rightarrow> real" where
  "temporalCentroid samples sampleRate =
     (if samples = [] \<or> sampleRate \<le> 0 then 0
      else (let energySum = sum_list (map (\<lambda>s. s * s) samples);
                weightedSum = sum_list (map (\<lambda>i. samples ! i * samples ! i * real i)
                                            [0..<length samples])
            in if energySum = 0 then 0
               else (weightedSum / energySum) / real (length samples)))"

definition onsetRate :: "real list \<Rightarrow> int \<Rightarrow> real" where
  "onsetRate samples sampleRate =
     (if length samples < 2 \<or> sampleRate \<le> 0 then 0
      else (let absVals = map abs samples;
                mean = sum_list absVals / real (length absVals);
                variance = sum_list (map (\<lambda>v. (v - mean) * (v - mean)) absVals);
                std = (if length absVals > 0 then sqrt (variance / real (length absVals))
                       else 0);
                threshold = mean + std;
                onsetCount = length (filter
                               (\<lambda>i. absVals ! (i - 1) < threshold \<and> absVals ! i \<ge> threshold)
                               [1..<length absVals]);
                duration = real (length samples) / real_of_int sampleRate
            in if duration \<le> 0 then 0
               else (let rate0 = real onsetCount / duration;
                         rate = (if rate0 > 20 then 20 else rate0)
                     in rate / 20)))"

definition amplitudeModulationDepth :: "real list \<Rightarrow> real" where
  "amplitudeModulationDepth samples =
     (if samples = [] then 0
      else (let mean = sum_list (map abs samples) / real (length samples)
            in if mean = 0 then 0
               else (let variance = sum_list (map (\<lambda>s. (\<bar>s\<bar> - mean) * (\<bar>s\<bar> - mean)) samples);
                         std = sqrt (variance / real (length samples));
                         depth = std / (mean + 1 / 10 ^ 9)
                     in if depth > 1 then 1 else depth)))"

text \<open>
  \<open>spectralSkewness\<close> returns \<open>math.Tanh\<close> of the normalised third moment. The real
  \<open>tanh\<close> lies strictly between -1 and 1; \<open>math.Tanh\<close> rounds to exactly 1 or -1 for
  large arguments, so the properties below state the closed interval \<open>[-1, 1]\<close>.
\<close>

definition spectralSkewness :: "real list \<Rightarrow> real list \<Rightarrow> real \<Rightarrow> real \<Rightarrow> real" where
  "spectralSkewness magnitude freqs centroid bandwidth =
     (if magnitude = [] \<or> bandwidth = 0 then 0
      else (let thirdMoment =
                  sum_list (map (\<lambda>(weight, f). weight * (f - centroid) * (f - centroid)
                                                  * (f - centroid))
                                (zip magnitude freqs));
                total = sum_list magnitude
            in if total = 0 then 0
               else tanh ((thirdMoment / total) / (bandwidth ^ 3 + 1 / 10 ^ 12))))"

definition spectralKurtosis :: "real list \<Rightarrow> real list \<Rightarrow> real \<Rightarrow> real \<Rightarrow> real" where
  "spectralKurtosis magnitude freqs centroid bandwidth =
     (if magnitude = [] \<or> bandwidth = 0 then 0
      else (let fourthMoment =
                  sum_list (map (\<lambda>(weight, f). weight * (f - centroid) * (f - centroid)
                                                  * (f - centroid) * (f - centroid))
                                (zip magnitude freqs));
                total = sum_list magnitude
            in if total = 0 then 0
               else max 0 (((fourthMoment / total) / (bandwidth ^ 4 + 1 / 10 ^ 12)) / 3)))"

definition spectralPeakProminence :: "real list \<Rightarrow> real" where
  "spectralPeakProminence magnitude =
     (if magnitude = [] then 0
      else (let mean = sum_list magnitude / real (length magnitude)
            in if mean = 0 then 0
               else (let peaks = sort magnitude;
                         topCount = (if length peaks < 3 then length peaks else 3);
                         topSum = sum_list (map (\<lambda>i. peaks ! (length peaks - 1 - i))
                                                [0..<topCount]);
                         topAvg = topSum / real topCount;
                         prominence = (topAvg - mean) / (topAvg + mean + 1 / 10 ^ 9)
                     in if prominence < 0 then 0
                        else if prominence > 1 then 1
                        else prominence)))"

text \<open>
  \<open>ExtractFeatureVector\<close>: the 19 features in the order of the returned slice. The
  frequencies are divided by the Nyquist frequency and clamped only after skewness,
  kurtosis and the harmonic features have read them in Hz.
\<close>

definition ExtractFeatureVector :: "real list \<Rightarrow> int \<Rightarrow> error + real list" where
  "ExtractFeatureVector samples sampleRate =
     (if samples = [] then Inl NoSamplesProvided
      else if sampleRate \<le> 0 then Inl InvalidSampleRate
      else (let energy = rootMeanSquare samples;
                zcr = zeroCrossingRate samples;
                variance = signalVariance samples;
                (spectrum, freqs) = computeSpectrum samples sampleRate;
                centroid = spectralCentroid spectrum freqs;
                bandwidth = spectralBandwidth spectrum freqs centroid;
                rolloff = spectralRolloff spectrum freqs (85 / 100);
                flatness = spectralFlatness spectrum;
                crest = spectralCrestFactor spectrum;
                entropy = spectralEntropy spectrum;
                dominant = dominantFrequency spectrum freqs;
                temporalCentre = temporalCentroid samples sampleRate;
                onsetRateNorm = onsetRate samples sampleRate;
                amDepth = amplitudeModulationDepth samples;
                skewness = spectralSkewness spectrum freqs centroid bandwidth;
                kurtosis = spectralKurtosis spectrum freqs centroid bandwidth;
                peakProminence = spectralPeakProminence spectrum;
                (harmonicRatio, harmonicCount, harmonicStrength) =
                  (if dominant > 0 then harmonicFeatures spectrum freqs dominant sampleRate
                   else (0, 0, 0));
                nyquistFreq = real_of_int sampleRate / 2;
                centroid' = (if nyquistFreq > 0 then clamp01 (centroid / nyquistFreq)
                             else centroid);
                bandwidth' = (if nyquistFreq > 0 then clamp01 (bandwidth / nyquistFreq)
                              else bandwidth);
                rolloff' = (if nyquistFreq > 0 then clamp01 (rolloff / nyquistFreq)
                            else rolloff);
                dominant' = (if nyquistFreq > 0 then clamp01 (dominant / nyquistFreq)
                             else dominant);
                crest' = clamp01 (crest / 100);
                kurtosis' = clamp01 ((kurtosis + 3) / 13)
            in Inr [energy, zcr, centroid', bandwidth', rolloff', flatness, dominant',
                    crest', entropy, variance, temporalCentre, onsetRateNorm, amDepth,
                    skewness, kurtosis', peakProminence, harmonicRatio, harmonicCount,
                    harmonicStrength]))"

text \<open>
  \<open>unitInterval\<close> says that a value lies in \<open>[0, 1]\<close>. \<open>chirp\<close> is a waveform of three
  samples within \<open>[-1, 1]\<close>.
\<close>

definition unitInterval :: "real \<Rightarrow> bool" where
  "unitInterval x = (0 \<le> x \<and> x \<le> 1)"

definition chirp :: "real list" where
  "chirp = [0, 3 / 5, - (4 / 5)]"

section \<open>Properties\<close>

subsection \<open>Adaptive threshold\<close>

text \<open>
  Claim C2. For every base threshold and every SNR, \<open>AdaptiveThreshold\<close> is the base
  threshold plus 0.15 below 10 dB, plus 0.10 from 10 dB up to 20 dB, plus 0.05 from
  20 dB up to 30 dB and plus nothing from 30 dB on, clamped to \<open>[0.5, 0.9]\<close>; each of
  the boundaries 10, 20 and 30 belongs to the band with the smaller offset, and
  9.999, 19.999 and 29.999 to the band below.
\<close>

theorem AdaptiveThreshold_bands:
  "AdaptiveThreshold tau snr = spec_clamp (5 / 10) (9 / 10) (tau + spec_adjustment snr)
   \<and> 5 / 10 \<le> AdaptiveThreshold tau snr \<and> AdaptiveThreshold tau snr \<le> 9 / 10
   \<and> AdaptiveThreshold (55 / 100) (9999 / 1000) = 55 / 100 + 15 / 100
   \<and> AdaptiveThreshold (55 / 100) 10 = 55 / 100 + 10 / 100
   \<and> AdaptiveThreshold (55 / 100) (19999 / 1000) = 55 / 100 + 10 / 100
   \<and> AdaptiveThreshold (55 / 100) 20 = 55 / 100 + 5 / 100
   \<and> AdaptiveThreshold (55 / 100) (29999 / 1000) = 55 / 100 + 5 / 100
   \<and> AdaptiveThreshold (55 / 100) 30 = 55 / 100"
  by (simp add: AdaptiveThreshold_def spec_clamp_def spec_adjustment_def Let_def)

subsection \<open>Case folding\<close>

lemma of_char_asciiLower:
  "(of_char (asciiLower c) :: nat) =
     (if 65 \<le> (of_char c :: nat) \<and> (of_char c :: nat) \<le> 90 then of_char c + 32
      else of_char c)"
  by (simp add: asciiLower_def)

lemma fold_codes:
  fixes n m :: nat
  shows "((if 65 \<le> n \<and> n \<le> 90 then n + 32 else n)
            = (if 65 \<le> m \<and> m \<le> 90 then m + 32 else m))
       = (let sr = min n m; tr = max n m
          in tr = sr \<or> (65 \<le> sr \<and> sr \<le> 90 \<and> tr = sr + 32))"
  by (simp add: Let_def min_def max_def) linarith

lemma asciiFoldEq_lower: "asciiFoldEq c d = (asciiLower c = asciiLower d)"
proof -
  have "(asciiLower c = asciiLower d)
          = ((of_char (asciiLower c) :: nat) = of_char (asciiLower d))"
    by simp
  also have "\<dots> = asciiFoldEq c d"
    unfolding of_char_asciiLower asciiFoldEq_def by (rule fold_codes)
  finally show ?thesis by simp
qed

lemma EqualFold_ascii:
  "isASCII s \<Longrightarrow> isASCII t \<Longrightarrow> EqualFold s t = (map asciiLower s = map asciiLower t)"
  unfolding isASCII_def
  by (induction s t rule: EqualFold.induct) (auto simp: asciiFoldEq_lower)

lemma EqualFold_noise_self: "EqualFold ''noise'' ''noise''"
  by (simp add: asciiFoldEq_def)

subsection \<open>Drone decision\<close>

text \<open>
  Claim C1, as amended. The decision is false on an empty prediction list; on a
  non-empty one it is taken on the first prediction alone and holds exactly when that
  prediction's category is not "noise" up to letter case (Go's \<open>EqualFold\<close>, which on
  ASCII text is equality after lower-casing) and its confidence reaches the threshold,
  the threshold being the SNR-adjusted one when the SNR is non-zero and the base
  threshold when it is zero. A first prediction of category "noise" gives false
  whatever its confidence.
\<close>

theorem DetermineDroneLikelyWithSNR_decision:
  "DetermineDroneLikelyWithSNR [] base snr = False
   \<and> DetermineDroneLikelyWithSNR (best # rest) base snr
       = (\<not> EqualFold (PredCategory best) ''noise''
          \<and> Confidence best \<ge> (if snr = 0 then base else AdaptiveThreshold base snr))
   \<and> (isASCII (PredCategory best) \<longrightarrow>
        EqualFold (PredCategory best) ''noise''
          = (map asciiLower (PredCategory best) = ''noise''))
   \<and> (PredCategory best = ''noise'' \<longrightarrow>
        \<not> DetermineDroneLikelyWithSNR (best # rest) base snr)"
proof -
  have ascii: "isASCII ''noise''"
    by (simp add: isASCII_def)
  have low: "map asciiLower ''noise'' = ''noise''"
    by (simp add: asciiLower_def)
  have a: "DetermineDroneLikelyWithSNR [] base snr = False"
    by (simp add: DetermineDroneLikelyWithSNR_def)
  have b: "DetermineDroneLikelyWithSNR (best # rest) base snr
       = (\<not> EqualFold (PredCategory best) ''noise''
          \<and> Confidence best \<ge> (if snr = 0 then base else AdaptiveThreshold base snr))"
    by (simp add: DetermineDroneLikelyWithSNR_def Let_def)
  have c: "isASCII (PredCategory best) \<longrightarrow>
        EqualFold (PredCategory best) ''noise''
          = (map asciiLower (PredCategory best) = ''noise'')"
    using EqualFold_ascii [OF _ ascii, of "PredCategory best"] low by simp
  have d: "PredCategory best = ''noise'' \<longrightarrow>
        \<not> DetermineDroneLikelyWithSNR (best # rest) base snr"
    using b EqualFold_noise_self by simp
  from a b c d show ?thesis by blast
qed

theorem DetermineDroneLikelyWithSNR_decision_witness:
  "isASCII ''NOISE''
   \<and> EqualFold ''NOISE'' ''noise''
   \<and> \<not> DetermineDroneLikelyWithSNR
         [\<lparr>PredLabel = ''wind'', PredCategory = ''noise'', PredDescription = [],
           Confidence = 6 / 10, AverageDist = 1 / 10, Support = 1, TopPrototypes = [],
           PredMetadata = None\<rparr>,
          \<lparr>PredLabel = ''quad'', PredCategory = ''drone'', PredDescription = [],
           Confidence = 3 / 10, AverageDist = 4 / 10, Support = 1, TopPrototypes = [],
           PredMetadata = None\<rparr>] (55 / 100) 35"
proof -
  let ?wind = "\<lparr>PredLabel = ''wind'', PredCategory = ''noise'', PredDescription = [],
           Confidence = 6 / 10, AverageDist = 1 / 10, Support = 1, TopPrototypes = [],
           PredMetadata = None\<rparr>"
  let ?quad = "\<lparr>PredLabel = ''quad'', PredCategory = ''drone'', PredDescription = [],
           Confidence = 3 / 10, AverageDist = 4 / 10, Support = 1, TopPrototypes = [],
           PredMetadata = None\<rparr>"
  let ?loud = "\<lparr>PredLabel = ''wind'', PredCategory = ''NOISE'', PredDescription = [],
           Confidence = 6 / 10, AverageDist = 1 / 10, Support = 1, TopPrototypes = [],
           PredMetadata = None\<rparr>"
  have ascii: "isASCII ''NOISE''"
    by code_simp
  have low: "map asciiLower ''NOISE'' = ''noise''"
    by code_simp
  have "isASCII (PredCategory ?loud) \<longrightarrow>
        EqualFold (PredCategory ?loud) ''noise''
          = (map asciiLower (PredCategory ?loud) = ''noise'')"
    by (rule DetermineDroneLikelyWithSNR_decision
          [of "55 / 100" 35 ?loud "[]", THEN conjunct2, THEN conjunct2, THEN conjunct1])
  with ascii low have fold: "EqualFold ''NOISE'' ''noise''"
    by simp
  have "PredCategory ?wind = ''noise'' \<longrightarrow>
        \<not> DetermineDroneLikelyWithSNR (?wind # [?quad]) (55 / 100) 35"
    by (rule DetermineDroneLikelyWithSNR_decision
          [of "55 / 100" 35 ?wind "[?quad]", THEN conjunct2, THEN conjunct2, THEN conjunct2])
  then have "\<not> DetermineDroneLikelyWithSNR [?wind, ?quad] (55 / 100) 35"
    by simp
  with ascii fold show ?thesis by blast
qed

text \<open>
  The claim as first stated compares the category with "noise" exactly. A first
  prediction of category "Noise" and confidence 0.9 would then be a drone at threshold
  0.55; the code says it is not.
\<close>

theorem DetermineDroneLikelyWithSNR_exact_match_counterexample:
  "\<not> (DetermineDroneLikelyWithSNR
         [\<lparr>PredLabel = ''wind'', PredCategory = ''Noise'', PredDescription = [],
           Confidence = 9 / 10, AverageDist = 1 / 10, Support = 1, TopPrototypes = [],
           PredMetadata = None\<rparr>] (55 / 100) 0
       = (''Noise'' \<noteq> ''noise'' \<and> (9 / 10 :: real) \<ge> 55 / 100))"
  by (simp add: DetermineDroneLikelyWithSNR_def asciiFoldEq_def)

subsection \<open>Cosine similarity\<close>

lemma Cauchy_Schwarz_sum:
  fixes f g :: "nat \<Rightarrow> real"
  shows "(\<Sum>i<n. f i * g i)\<^sup>2 \<le> (\<Sum>i<n. f i * f i) * (\<Sum>i<n. g i * g i)"
proof -
  let ?A = "\<Sum>i<n. f i * f i" and ?B = "\<Sum>i<n. g i * g i" and ?D = "\<Sum>i<n. f i * g i"
  have quad: "0 \<le> t * t * ?A + 2 * t * ?D + ?B" for t
  proof -
    have "0 \<le> (\<Sum>i<n. (f i * t + g i) * (f i * t + g i))"
      by (rule sum_nonneg) simp
    also have "\<dots> = (\<Sum>i<n. t * t * (f i * f i) + 2 * t * (f i * g i) + g i * g i)"
      by (rule sum.cong) (simp_all add: algebra_simps)
    also have "\<dots> = t * t * ?A + 2 * t * ?D + ?B"
      by (simp add: sum.distrib sum_distrib_left)
    finally show ?thesis .
  qed
  have A0: "0 \<le> ?A" by (rule sum_nonneg) simp
  show ?thesis
  proof (cases "?A = 0")
    case True
    then have "\<forall>i\<in>{..<n}. f i * f i = 0"
      by (subst (asm) sum_nonneg_eq_0_iff) simp_all
    then have "?D = 0" by simp
    with True show ?thesis by simp
  next
    case False
    with A0 have Apos: "0 < ?A" by simp
    from quad [of "- ?D / ?A"] have "0 \<le> ?D * ?D / ?A - 2 * (?D * ?D) / ?A + ?B"
      using Apos by (simp add: field_simps)
    then have "?D * ?D / ?A \<le> ?B" by simp
    then have "?D * ?D \<le> ?B * ?A" using Apos by (simp add: field_simps)
    then show ?thesis by (simp add: power2_eq_square mult.commute)
  qed
qed

lemma fold_cosineStep:
  "fold (cosineStep a b w) [0..<n] (d, x, y) =
     (d + (\<Sum>i<n. (a ! i * wAt w i) * (b ! i * wAt w i)),
      x + (\<Sum>i<n. (a ! i * wAt w i) * (a ! i * wAt w i)),
      y + (\<Sum>i<n. (b ! i * wAt w i) * (b ! i * wAt w i)))"
  by (induction n) (simp_all add: cosineStep_def wAt_def Let_def)

lemma cosineSimilarity_sum:
  "cosineSimilarity a b w =
     (let n = min (length a) (length b);
          D = (\<Sum>i<n. (a ! i * wAt w i) * (b ! i * wAt w i));
          A = (\<Sum>i<n. (a ! i * wAt w i) * (a ! i * wAt w i));
          B = (\<Sum>i<n. (b ! i * wAt w i) * (b ! i * wAt w i))
      in if A = 0 \<or> B = 0 then 0 else D / (sqrt A * sqrt B))"
  by (simp add: cosineSimilarity_def fold_cosineStep Let_def)

lemma cosineSimilarity_abs_le_1: "\<bar>cosineSimilarity a b w\<bar> \<le> 1"
proof -
  define n where "n = min (length a) (length b)"
  define f where "f i = a ! i * wAt w i" for i
  define g where "g i = b ! i * wAt w i" for i
  let ?A = "\<Sum>i<n. f i * f i" and ?B = "\<Sum>i<n. g i * g i" and ?D = "\<Sum>i<n. f i * g i"
  have eq: "cosineSimilarity a b w = (if ?A = 0 \<or> ?B = 0 then 0 else ?D / (sqrt ?A * sqrt ?B))"
    by (simp add: cosineSimilarity_sum Let_def n_def f_def g_def)
  have A0: "0 \<le> ?A" and B0: "0 \<le> ?B" by (rule sum_nonneg, simp)+
  show ?thesis
  proof (cases "?A = 0 \<or> ?B = 0")
    case True
    then show ?thesis by (simp add: eq)
  next
    case False
    with A0 B0 have pos: "0 < sqrt ?A * sqrt ?B" by simp
    have "\<bar>?D\<bar> = sqrt (?D\<^sup>2)" by simp
    also have "\<dots> \<le> sqrt (?A * ?B)"
      by (rule real_sqrt_le_mono) (rule Cauchy_Schwarz_sum)
    also have "\<dots> = sqrt ?A * sqrt ?B" by (rule real_sqrt_mult)
    finally have "\<bar>?D\<bar> \<le> sqrt ?A * sqrt ?B" .
    then have "\<bar>?D / (sqrt ?A * sqrt ?B)\<bar> \<le> 1" using pos by (simp add: field_simps)
    with False show ?thesis by (simp add: eq)
  qed
qed

subsection \<open>Sorting and the neighbour loop\<close>

lemma mset_insertSlice: "mset (insertSlice lt x xs) = add_mset x (mset xs)"
  by (induction xs) simp_all

lemma mset_sortSlice: "mset (sortSlice lt xs) = mset xs"
  by (induction xs) (simp_all add: sortSlice_def mset_insertSlice)

lemma set_sortSlice: "set (sortSlice lt xs) = set xs"
  by (metis mset_sortSlice set_mset_mset)

lemma length_sortSlice: "length (sortSlice lt xs) = length xs"
  by (metis mset_sortSlice size_mset)

lemma sum_list_sortSlice:
  fixes f :: "'a \<Rightarrow> real"
  shows "sum_list (map f (sortSlice lt xs)) = sum_list (map f xs)"
proof -
  have "mset (map f (sortSlice lt xs)) = mset (map f xs)"
    by (simp add: mset_sortSlice)
  then show ?thesis by (metis sum_mset_sum_list)
qed

lemma sum_list_update:
  fixes f :: "'b \<Rightarrow> real"
  shows "sum_list (map (\<lambda>e. f (snd e)) (AList.update k v al))
       = sum_list (map (\<lambda>e. f (snd e)) al)
         - (case map_of al k of None \<Rightarrow> 0 | Some u \<Rightarrow> f u) + f v"
  by (induction al) auto

lemma list_all_update:
  "list_all (\<lambda>e. P (snd e)) al \<Longrightarrow> P v \<Longrightarrow> list_all (\<lambda>e. P (snd e)) (AList.update k v al)"
  by (induction al) auto

lemma map_of_list_all:
  "list_all (\<lambda>e. P (snd e)) al \<Longrightarrow> map_of al k = Some u \<Longrightarrow> P u"
  by (induction al) (auto split: if_splits)

lemma statsOK_step:
  assumes "d \<in> D" and "st = emptyStats \<or> statsOK D st"
  shows "statsOK D (st\<lparr>weightSum := weightSum st + 1 / (d + 1 / 10 ^ 9),
             distSum := distSum st + d,
             statCount := statCount st + 1,
             statPrototypes := statPrototypes st @
               [\<lparr>ScoreID = i, Distance = d, Weight = 1 / (d + 1 / 10 ^ 9), ScoreSource = src\<rparr>]\<rparr>)"
  using assms by (auto simp: statsOK_def emptyStats_def scoreOK_def)

lemma scoresOK_step:
  assumes "scoresOK D acc" and "snd nb \<in> D"
  shows "scoresOK D (neighbourStep protos nb acc)"
proof -
  obtain ls tw where acc: "acc = (ls, tw)" by (cases acc)
  obtain idx d where nb: "nb = (idx, d)" by (cases nb)
  define st where "st = (case map_of ls (Label (protos ! idx)) of None \<Rightarrow> emptyStats | Some st \<Rightarrow> st)"
  from assms acc have all: "list_all (\<lambda>e. statsOK D (snd e)) ls"
    and total: "sum_list (map (\<lambda>e. weightSum (snd e)) ls) = tw"
    by (simp_all add: scoresOK_def)
  have st: "st = emptyStats \<or> statsOK D st"
    unfolding st_def using map_of_list_all [OF all] by (auto split: option.splits)
  have old: "(case map_of ls (Label (protos ! idx)) of None \<Rightarrow> 0 | Some u \<Rightarrow> weightSum u) = weightSum st"
    unfolding st_def by (simp add: emptyStats_def split: option.splits)
  from assms nb have dD: "d \<in> D" by simp
  show ?thesis
    unfolding acc nb neighbourStep_def scoresOK_def Let_def
    using statsOK_step [OF dD st] total old
    by (simp add: sum_list_update list_all_update [OF all] st_def [symmetric])
qed

lemma scoresOK_fold:
  "scoresOK D acc \<Longrightarrow> snd ` set nbs \<subseteq> D \<Longrightarrow> scoresOK D (fold (neighbourStep protos) nbs acc)"
proof (induction nbs arbitrary: acc)
  case Nil
  then show ?case by simp
next
  case (Cons nb nbs)
  from Cons.prems have "scoresOK D (neighbourStep protos nb acc)"
    by (intro scoresOK_step) simp_all
  with Cons.IH [of "neighbourStep protos nb acc"] Cons.prems show ?case by simp
qed

lemma scoresOK_init: "scoresOK D ([], 0)"
  by (simp add: scoresOK_def)

lemma total_fold:
  "snd (fold (neighbourStep protos) nbs acc)
     = snd acc + sum_list (map (\<lambda>nb. 1 / (snd nb + 1 / 10 ^ 9)) nbs)"
proof (induction nbs arbitrary: acc)
  case Nil
  then show ?case by simp
next
  case (Cons nb nbs)
  have "snd (neighbourStep protos nb acc) = snd acc + 1 / (snd nb + 1 / 10 ^ 9)"
    by (cases acc, cases nb) (simp add: neighbourStep_def Let_def)
  with Cons.IH [of "neighbourStep protos nb acc"] show ?case by simp
qed

lemma total_nonneg:
  assumes "list_all (\<lambda>nb. 0 \<le> snd nb) nbs"
  shows "0 \<le> snd (fold (neighbourStep protos) nbs ([], 0))"
proof -
  have "0 \<le> sum_list (map (\<lambda>nb. 1 / (snd nb + 1 / 10 ^ 9)) nbs)"
    using assms by (intro sum_list_nonneg) (auto simp: list_all_iff)
  then show ?thesis by (simp add: total_fold)
qed

subsection \<open>Predict\<close>

lemma Predict_unfold:
  "Predict c query =
     (if query = [] then Inl EmptyFeatureVector
      else if prototypes c = [] then Inr []
      else if snd (neighbourAcc c query) = 0 then Inr []
      else Inr (sortSlice predictionLess
                  (map (makePrediction c (snd (neighbourAcc c query)))
                       (fst (neighbourAcc c query)))))"
  by (simp add: Predict_def neighbourAcc_def Let_def split: prod.splits)

lemma prototypeDistances_range:
  "list_all (\<lambda>nb. 0 \<le> snd nb \<and> snd nb \<le> 2) (prototypeDistances q protos)"
proof -
  have "0 \<le> 1 - cosineSimilarity a b w \<and> 1 - cosineSimilarity a b w \<le> 2" for a b w
    using cosineSimilarity_abs_le_1 [of a b w] by linarith
  then show ?thesis by (simp add: prototypeDistances_def list_all_iff)
qed

lemma neighbours_subset:
  "set (take n (sortSlice lt xs)) \<subseteq> set xs"
  using set_take_subset [of n "sortSlice lt xs"] by (simp add: set_sortSlice)

lemma neighbourAcc_OK:
  "scoresOK {d. 0 \<le> d \<and> d \<le> 2} (neighbourAcc c query)"
proof -
  have "snd ` set (take n (sortSlice lt (prototypeDistances q protos))) \<subseteq> {d. 0 \<le> d \<and> d \<le> 2}"
    for n lt q protos
    using neighbours_subset [of n lt "prototypeDistances q protos"]
      prototypeDistances_range [of q protos]
    by (auto simp: list_all_iff)
  then show ?thesis
    unfolding neighbourAcc_def Let_def
    by (intro scoresOK_fold scoresOK_init)
qed

lemma neighbourAcc_total_nonneg: "0 \<le> snd (neighbourAcc c query)"
proof -
  have "list_all (\<lambda>nb. 0 \<le> snd nb) (take n (sortSlice lt (prototypeDistances q protos)))"
    for n lt q protos
    using neighbours_subset [of n lt "prototypeDistances q protos"]
      prototypeDistances_range [of q protos]
    by (auto simp: list_all_iff)
  then show ?thesis
    unfolding neighbourAcc_def Let_def by (intro total_nonneg)
qed

lemma sum_list_divide:
  fixes f :: "'a \<Rightarrow> real"
  shows "sum_list (map (\<lambda>x. f x / t) xs) = sum_list (map f xs) / t"
  by (induction xs) (simp_all add: add_divide_distrib)

lemma Confidence_makePrediction:
  "0 < t \<Longrightarrow> Confidence (makePrediction c t e) = weightSum (snd e) / t"
  by (simp add: makePrediction_def Let_def split_def)

lemma confidences_sum:
  assumes "scoresOK D acc" and "0 < snd acc"
  shows "sum_list (map Confidence (map (makePrediction c (snd acc)) (fst acc))) = 1"
proof -
  have "map Confidence (map (makePrediction c (snd acc)) (fst acc))
          = map (\<lambda>e. weightSum (snd e) / snd acc) (fst acc)"
    using assms(2) by (simp add: Confidence_makePrediction)
  then have "sum_list (map Confidence (map (makePrediction c (snd acc)) (fst acc)))
          = sum_list (map (\<lambda>e. weightSum (snd e)) (fst acc)) / snd acc"
    by (simp only: sum_list_divide)
  with assms show ?thesis by (simp add: scoresOK_def)
qed





lemma Predict_total: "query \<noteq> [] \<Longrightarrow> \<exists>ps. Predict c query = Inr ps"
  by (simp add: Predict_unfold)

lemma featureWeights_nth: "wAt featureWeights i = 1"
  by (simp add: wAt_def featureWeights_def)

lemma cosine_same_axis: "cosineSimilarity [1, 0] [1, 0] featureWeights = 1"
  by (simp add: cosineSimilarity_sum featureWeights_nth Let_def lessThan_Suc numeral_2_eq_2)

lemma cosine_orthogonal: "cosineSimilarity [1, 0] [0, 1] featureWeights = 0"
  by (simp add: cosineSimilarity_sum featureWeights_nth Let_def lessThan_Suc numeral_2_eq_2)

lemma exampleStore_distances: "prototypeDistances (scaleQuery exampleStore [1, 0]) (prototypes exampleStore) = [(0, 0), (1, 1)]"
  by (simp add: prototypeDistances_def scaleQuery_def exampleStore_def cosine_same_axis cosine_orthogonal upt_rec)

lemma exampleStore_accumulators:
  "neighbourAcc exampleStore [1, 0] =
     ([(''alpha'', \<lparr>weightSum = 10 ^ 9, distSum = 0, statCount = 1,
          statPrototypes = [\<lparr>ScoreID = ''a1'', Distance = 0, Weight = 10 ^ 9, ScoreSource = ''a.wav''\<rparr>]\<rparr>),
       (''beta'', \<lparr>weightSum = 1 / (1 + 1 / 10 ^ 9), distSum = 1, statCount = 1,
          statPrototypes = [\<lparr>ScoreID = ''b1'', Distance = 1, Weight = 1 / (1 + 1 / 10 ^ 9), ScoreSource = ''b.wav''\<rparr>]\<rparr>)],
      10 ^ 9 + 1 / (1 + 1 / 10 ^ 9))"
  unfolding neighbourAcc_def Let_def exampleStore_distances
  by (simp add: sortSlice_def exampleStore_def neighbourStep_def Let_def emptyStats_def)









lemma Predict_sum_one:
  assumes "Predict c query = Inr ps" and "ps \<noteq> []"
  shows "sum_list (map Confidence ps) = 1"
proof -
  let ?acc = "neighbourAcc c query"
  from assms have nz: "snd ?acc \<noteq> 0"
    and ps: "ps = sortSlice predictionLess (map (makePrediction c (snd ?acc)) (fst ?acc))"
    by (auto simp: Predict_unfold split: if_splits)
  from nz neighbourAcc_total_nonneg [of c query] have pos: "0 < snd ?acc" by simp
  have "sum_list (map Confidence ps)
          = sum_list (map Confidence (map (makePrediction c (snd ?acc)) (fst ?acc)))"
    unfolding ps by (rule sum_list_sortSlice)
  also have "\<dots> = 1"
    by (rule confidences_sum [OF neighbourAcc_OK pos])
  finally show ?thesis .
qed



lemma cosineSimilarity_prefix:
  "cosineSimilarity a b w
     = cosineSimilarity (take (min (length a) (length b)) a) (take (min (length a) (length b)) b) w"
  by (simp add: cosineSimilarity_sum Let_def)

lemma Predict_example:
  "\<exists>ps. Predict exampleStore [1, 0] = Inr ps \<and> map PredLabel ps = [''alpha'', ''beta'']
      \<and> map Support ps = [1, 1] \<and> map AverageDist ps = [0, 1]"
  unfolding Predict_unfold exampleStore_accumulators
  by (simp add: exampleStore_def sortSlice_def makePrediction_def predictionLess_def Let_def)

lemma Predict_nonempty_iff:
  assumes "Predict c query = Inr ps"
  shows "(ps \<noteq> []) = (prototypes c \<noteq> [] \<and> snd (neighbourAcc c query) \<noteq> 0)"
proof (cases "prototypes c \<noteq> [] \<and> snd (neighbourAcc c query) \<noteq> 0")
  case True
  let ?acc = "neighbourAcc c query"
  from True neighbourAcc_total_nonneg [of c query] have pos: "0 < snd ?acc" by simp
  have "sum_list (map (\<lambda>e. weightSum (snd e)) (fst ?acc)) = snd ?acc"
    using neighbourAcc_OK [of c query] by (simp add: scoresOK_def)
  with pos have "fst ?acc \<noteq> []" by auto
  then have "sortSlice predictionLess (map (makePrediction c (snd ?acc)) (fst ?acc)) \<noteq> []"
    using length_sortSlice [of predictionLess "map (makePrediction c (snd ?acc)) (fst ?acc)"]
    by auto
  with assms True show ?thesis by (auto simp: Predict_unfold split: if_splits)
next
  case False
  with assms show ?thesis by (auto simp: Predict_unfold split: if_splits)
qed

text \<open>
  Claim C7. Whenever \<open>Predict\<close> returns a prediction list for a store with at least one
  prototype and the neighbour loop ended with a non-zero total weight (which is exactly
  when the list is not empty), the confidences of the list sum to 1, hence to 1 within
  \<open>1e-6\<close>. The sum is exact here because \<open>float64\<close> is read as a real number.
\<close>

theorem Predict_confidences_sum_to_one:
  assumes "Predict c query = Inr ps"
    and "prototypes c \<noteq> []" and "snd (neighbourAcc c query) \<noteq> 0"
  shows "ps \<noteq> [] \<and> sum_list (map Confidence ps) = 1
         \<and> \<bar>sum_list (map Confidence ps) - 1\<bar> \<le> 1 / 10 ^ 6"
proof -
  from Predict_nonempty_iff [OF assms(1)] assms(2,3) have ne: "ps \<noteq> []" by simp
  from Predict_sum_one [OF assms(1) ne] ne show ?thesis by simp
qed

theorem Predict_confidences_sum_to_one_witness:
  "\<exists>ps. Predict exampleStore [1, 0] = Inr ps
      \<and> prototypes exampleStore \<noteq> [] \<and> snd (neighbourAcc exampleStore [1, 0]) \<noteq> 0
      \<and> map PredLabel ps = [''alpha'', ''beta'']
      \<and> sum_list (map Confidence ps) = 1"
proof -
  from Predict_example obtain ps where ps: "Predict exampleStore [1, 0] = Inr ps"
    and labels: "map PredLabel ps = [''alpha'', ''beta'']" by (elim exE conjE)
  have protos: "prototypes exampleStore \<noteq> []" by (simp add: exampleStore_def)
  have total: "snd (neighbourAcc exampleStore [1, 0]) \<noteq> 0"
    unfolding exampleStore_accumulators by simp
  from Predict_confidences_sum_to_one [OF ps protos total]
  have "sum_list (map Confidence ps) = 1" by simp
  with ps labels protos total show ?thesis by (intro exI [of _ ps]) simp
qed

lemma mismatch_distances:
  "prototypeDistances (scaleQuery exampleStore [1, 0, 7]) (prototypes exampleStore)
     = [(0, 0), (1, 1)]"
  by (simp add: prototypeDistances_def scaleQuery_def exampleStore_def cosineSimilarity_sum
       featureWeights_nth Let_def lessThan_Suc numeral_2_eq_2 upt_rec)

lemma mismatch_acc:
  "neighbourAcc exampleStore [1, 0, 7] = neighbourAcc exampleStore [1, 0]"
  unfolding neighbourAcc_def Let_def exampleStore_distances mismatch_distances by (rule refl)

text \<open>
  Claim C4, as amended. \<open>Predict\<close> rejects the empty query and no other: a query of any
  length, equal to the store's dimension or not, gets a prediction list and no error.
  The distance loop reads the first \<open>min (len a) (len b)\<close> components of query and
  prototype and nothing beyond them, and the scaler leaves a query of another length
  than its own unchanged.
\<close>

theorem Predict_accepts_any_length:
  "(Predict c query = Inl EmptyFeatureVector) = (query = [])
   \<and> (query \<noteq> [] \<longrightarrow> (\<exists>ps. Predict c query = Inr ps))
   \<and> cosineSimilarity a b w
       = cosineSimilarity (take (min (length a) (length b)) a)
                          (take (min (length a) (length b)) b) w
   \<and> (length query \<noteq> length (Mean fs) \<longrightarrow> Transform fs query = query)"
proof -
  have "(Predict c query = Inl EmptyFeatureVector) = (query = [])"
    by (simp add: Predict_unfold)
  moreover have "query \<noteq> [] \<longrightarrow> (\<exists>ps. Predict c query = Inr ps)"
    by (simp add: Predict_total)
  moreover have "length query \<noteq> length (Mean fs) \<longrightarrow> Transform fs query = query"
    by (simp add: Transform_def)
  ultimately show ?thesis using cosineSimilarity_prefix [of a b w] by blast
qed

theorem Predict_accepts_any_length_witness:
  "[1, 0, 7] \<noteq> ([] :: real list)
   \<and> (\<exists>ps. Predict exampleStore [1, 0, 7] = Inr ps)
   \<and> Transform \<lparr>Mean = [1, 0], Stddev = [1, 1]\<rparr> [1, 0, 7] = [1, 0, 7]"
proof -
  note inst = Predict_accepts_any_length
    [where c = exampleStore and query = "[1, 0, 7]" and a = "[1, 0, 7]" and b = "[1, 0]"
       and w = featureWeights and fs = "\<lparr>Mean = [1, 0], Stddev = [1, 1]\<rparr>"]
  have ne: "[1, 0, 7] \<noteq> ([] :: real list)" by simp
  have len: "length [1, 0, 7 :: real] \<noteq> length (Mean \<lparr>Mean = [1, 0], Stddev = [1, 1]\<rparr>)"
    by simp
  from inst ne have a: "\<exists>ps. Predict exampleStore [1, 0, 7] = Inr ps" by blast
  from inst len have b: "Transform \<lparr>Mean = [1, 0], Stddev = [1, 1]\<rparr> [1, 0, 7] = [1, 0, 7]"
    by blast
  from ne a b show ?thesis by blast
qed

text \<open>
  The claim as first stated wants a dimension-mismatch error. \<open>exampleStore\<close> holds
  prototypes of two features; the query \<open>[1, 0, 7]\<close> has three, and \<open>Predict\<close> answers
  with the predictions of the query \<open>[1, 0]\<close>: the third component is cut off.
\<close>

theorem Predict_mismatched_length_counterexample:
  "length [1, 0, 7 :: real] \<noteq> length (Features (hd (prototypes exampleStore)))
   \<and> cosineSimilarity [1, 0, 7] [1, 0] featureWeights = 1
   \<and> (\<exists>ps. Predict exampleStore [1, 0, 7] = Inr ps
          \<and> map PredLabel ps = [''alpha'', ''beta''] \<and> map AverageDist ps = [0, 1])"
proof -
  have a: "length [1, 0, 7 :: real] \<noteq> length (Features (hd (prototypes exampleStore)))"
    by (simp add: exampleStore_def)
  have b: "cosineSimilarity [1, 0, 7] [1, 0] featureWeights = 1"
    by (simp add: cosineSimilarity_sum featureWeights_nth Let_def lessThan_Suc numeral_2_eq_2)
  have c: "\<exists>ps. Predict exampleStore [1, 0, 7] = Inr ps
          \<and> map PredLabel ps = [''alpha'', ''beta''] \<and> map AverageDist ps = [0, 1]"
    unfolding Predict_unfold mismatch_acc exampleStore_accumulators
    by (simp add: exampleStore_def sortSlice_def makePrediction_def predictionLess_def Let_def)
  from a b c show ?thesis by blast
qed

subsection \<open>Fitting the scaler\<close>

lemma meanLoop_uniform:
  "list_all (\<lambda>p. length (Features p) = d) ps \<Longrightarrow> length mean = d \<Longrightarrow>
   meanLoop d ps mean = Inr (map (\<lambda>i. mean ! i + sum_list (column ps i)) [0..<d])"
proof (induction ps arbitrary: mean)
  case Nil
  then show ?case by (auto simp: column_def intro: nth_equalityI)
next
  case (Cons p ps)
  let ?mean' = "map (\<lambda>(m, val). m + val) (zip mean (Features p))"
  from Cons.prems have len: "length (Features p) = d" and rest: "list_all (\<lambda>p. length (Features p) = d) ps"
    by simp_all
  from len Cons.prems(2) have len': "length ?mean' = d" by simp
  have nth': "?mean' ! i = mean ! i + Features p ! i" if "i < d" for i
    using that len Cons.prems(2) by simp
  have "meanLoop d (p # ps) mean = meanLoop d ps ?mean'"
    using len by simp
  also have "\<dots> = Inr (map (\<lambda>i. ?mean' ! i + sum_list (column ps i)) [0..<d])"
    by (rule Cons.IH [OF rest len'])
  also have "map (\<lambda>i. ?mean' ! i + sum_list (column ps i)) [0..<d]
           = map (\<lambda>i. mean ! i + sum_list (column (p # ps) i)) [0..<d]"
    by (rule map_cong) (simp_all add: nth' column_def)
  finally show ?case .
qed

lemma stddevLoop_uniform:
  "list_all (\<lambda>p. length (Features p) = d) ps \<Longrightarrow> length mean = d \<Longrightarrow> length sd = d \<Longrightarrow>
   stddevLoop mean ps sd
     = map (\<lambda>i. sd ! i + sum_list (map (\<lambda>x. (x - mean ! i) ^ 2) (column ps i))) [0..<d]"
proof (induction ps arbitrary: sd)
  case Nil
  then show ?case by (auto simp: column_def intro: nth_equalityI)
next
  case (Cons p ps)
  let ?sd' = "map (\<lambda>(s, val, m). s + (val - m) * (val - m)) (zip sd (zip (Features p) mean))"
  from Cons.prems have len: "length (Features p) = d" and rest: "list_all (\<lambda>p. length (Features p) = d) ps"
    by simp_all
  from len Cons.prems(2,3) have len': "length ?sd' = d" by simp
  have nth': "?sd' ! i = sd ! i + (Features p ! i - mean ! i) ^ 2" if "i < d" for i
    using that len Cons.prems(2,3) by (simp add: power2_eq_square)
  have "stddevLoop mean (p # ps) sd = stddevLoop mean ps ?sd'"
    by simp
  also have "\<dots> = map (\<lambda>i. ?sd' ! i + sum_list (map (\<lambda>x. (x - mean ! i) ^ 2) (column ps i))) [0..<d]"
    by (rule Cons.IH [OF rest Cons.prems(2) len'])
  also have "\<dots> = map (\<lambda>i. sd ! i + sum_list (map (\<lambda>x. (x - mean ! i) ^ 2) (column (p # ps) i))) [0..<d]"
    by (rule map_cong) (simp_all add: nth' column_def)
  finally show ?case .
qed

lemma NewFeatureScalerFromPrototypes_unfold:
  "protos \<noteq> [] \<Longrightarrow>
   NewFeatureScalerFromPrototypes protos =
     (let featureCount = length (Features (hd protos))
      in if featureCount = 0 then Inl PrototypesHaveNoFeatures
         else (case meanLoop featureCount protos (replicate featureCount 0) of
                 Inl e \<Rightarrow> Inl e
               | Inr totals \<Rightarrow>
                   (let n = real (length protos);
                        mean = map (\<lambda>m. m / n) totals;
                        squares = stddevLoop mean protos (replicate featureCount 0);
                        stddev = map (\<lambda>s. let sd = sqrt (s / n)
                                          in if sd < 1 / 10 ^ 10 then 1 else sd) squares
                    in Inr \<lparr>Mean = mean, Stddev = stddev\<rparr>)))"
proof -
  assume "protos \<noteq> []"
  then obtain p ps where p: "protos = p # ps" by (cases protos) auto
  show ?thesis
    unfolding p NewFeatureScalerFromPrototypes_def by (simp only: list.case list.sel)
qed

text \<open>
  Claim C9, as amended. For a non-empty prototype set whose feature vectors all have
  the same positive length \<open>d\<close>, the fitted scaler holds \<open>d\<close> means and \<open>d\<close>
  deviations: for each dimension the arithmetic mean of the prototypes' values and
  their population standard deviation (divisor \<open>n\<close>, not \<open>n - 1\<close>), the deviation
  replaced by 1 when it is below \<open>1e-10\<close>.
\<close>

theorem NewFeatureScalerFromPrototypes_fit:
  assumes "protos \<noteq> []" and "0 < d" and "list_all (\<lambda>p. length (Features p) = d) protos"
  shows "\<exists>fs. NewFeatureScalerFromPrototypes protos = Inr fs
           \<and> length (Mean fs) = d \<and> length (Stddev fs) = d
           \<and> (\<forall>i<d. Mean fs ! i = spec_mean (column protos i)
                    \<and> Stddev fs ! i =
                        (if spec_population_stddev (column protos i) < 1 / 10 ^ 10 then 1
                         else spec_population_stddev (column protos i)))"
proof -
  from assms(1,3) have fc: "length (Features (hd protos)) = d"
    by (cases protos) simp_all
  define n where "n = real (length protos)"
  define mean where "mean = map (\<lambda>m. m / n) (map (\<lambda>i. 0 + sum_list (column protos i)) [0..<d])"
  define sq where "sq = map (\<lambda>i. 0 + sum_list (map (\<lambda>x. (x - mean ! i) ^ 2) (column protos i))) [0..<d]"
  define sd where "sd = map (\<lambda>s. if sqrt (s / n) < 1 / 10 ^ 10 then 1 else sqrt (s / n)) sq"
  have m: "meanLoop d protos (replicate d 0) = Inr (map (\<lambda>i. 0 + sum_list (column protos i)) [0..<d])"
    using meanLoop_uniform [OF assms(3), of "replicate d 0"] by simp
  have lm: "length mean = d" by (simp add: mean_def)
  have s: "stddevLoop mean protos (replicate d 0) = sq"
    using stddevLoop_uniform [OF assms(3) lm, of "replicate d 0"] by (simp add: sq_def)
  have res: "NewFeatureScalerFromPrototypes protos = Inr \<lparr>Mean = mean, Stddev = sd\<rparr>"
    unfolding NewFeatureScalerFromPrototypes_unfold [OF assms(1)] fc Let_def m sum.case
      n_def [symmetric] mean_def [symmetric] s sd_def [symmetric]
    using assms(2) by simp
  have mean_i: "mean ! i = spec_mean (column protos i)" if "i < d" for i
    using that by (simp add: mean_def spec_mean_def n_def column_def)
  have sd_i: "sd ! i = (if spec_population_stddev (column protos i) < 1 / 10 ^ 10 then 1
                         else spec_population_stddev (column protos i))" if "i < d" for i
  proof -
    have "sqrt (sq ! i / n) = spec_population_stddev (column protos i)"
      using that by (simp add: sq_def spec_population_stddev_def mean_i n_def column_def)
    then show ?thesis using that by (simp add: sd_def sq_def)
  qed
  have "length sd = d" by (simp add: sd_def sq_def)
  with res lm mean_i sd_i show ?thesis by simp
qed

lemma rawPair_fit:
  "NewFeatureScalerFromPrototypes rawPair = Inr \<lparr>Mean = [1], Stddev = [1]\<rparr>"
  by (simp add: NewFeatureScalerFromPrototypes_def rawPair_def Let_def)

theorem NewFeatureScalerFromPrototypes_fit_witness:
  "rawPair \<noteq> [] \<and> list_all (\<lambda>p. length (Features p) = 1) rawPair
   \<and> spec_mean (column rawPair 0) = 1
   \<and> spec_population_stddev (column rawPair 0) = 1
   \<and> (\<exists>fs. NewFeatureScalerFromPrototypes rawPair = Inr fs
          \<and> Mean fs ! 0 = 1 \<and> Stddev fs ! 0 = 1)"
proof -
  have ne: "rawPair \<noteq> []" and uni: "list_all (\<lambda>p. length (Features p) = 1) rawPair"
    by (simp_all add: rawPair_def)
  have mean: "spec_mean (column rawPair 0) = 1"
    by (simp add: spec_mean_def column_def rawPair_def)
  have dev: "spec_population_stddev (column rawPair 0) = 1"
    by (simp add: spec_population_stddev_def spec_mean_def column_def rawPair_def)
  from NewFeatureScalerFromPrototypes_fit [OF ne _ uni]
  obtain fs where fs: "NewFeatureScalerFromPrototypes rawPair = Inr fs"
    and vals: "\<forall>i<1. Mean fs ! i = spec_mean (column rawPair i)
                    \<and> Stddev fs ! i =
                        (if spec_population_stddev (column rawPair i) < 1 / 10 ^ 10 then 1
                         else spec_population_stddev (column rawPair i))"
    by auto
  from vals mean dev have "Mean fs ! 0 = 1 \<and> Stddev fs ! 0 = 1" by simp
  with ne uni mean dev fs show ?thesis by (intro conjI exI [of _ fs]) simp_all
qed

text \<open>
  The claim as first stated asks for the sample standard deviation. For the values 0
  and 2 that is \<open>sqrt 2\<close>; the fitted scaler holds 1, the population value.
\<close>

theorem NewFeatureScalerFromPrototypes_sample_stddev_counterexample:
  "\<exists>fs. NewFeatureScalerFromPrototypes rawPair = Inr fs
      \<and> Stddev fs ! 0 = 1
      \<and> spec_sample_stddev (column rawPair 0) = sqrt 2
      \<and> Stddev fs ! 0 \<noteq> spec_sample_stddev (column rawPair 0)"
proof -
  have s: "spec_sample_stddev (column rawPair 0) = sqrt 2"
    by (simp add: spec_sample_stddev_def spec_mean_def column_def rawPair_def)
  have "sqrt 2 \<noteq> (1 :: real)"
    by simp
  with s rawPair_fit show ?thesis by simp
qed

subsection \<open>Ingest\<close>

lemma length_NormaliseVectorInPlace: "length (NormaliseVectorInPlace v) = length v"
  by (simp add: NormaliseVectorInPlace_def Let_def)

lemma length_Transform: "length (Transform fs v) = length v"
  by (simp add: Transform_def)

lemma length_preparePrototype:
  "length (Features (preparePrototype scaler p)) = length (Features p)"
  by (simp add: preparePrototype_def Let_def length_NormaliseVectorInPlace length_Transform
        split: option.splits)

lemma AddPrototype_empty:
  "Features p = [] \<Longrightarrow> AddPrototype c p = (c, Inl PrototypeHasNoFeatures)"
  by (simp add: AddPrototype_def)

lemma AddPrototype_nonempty:
  assumes "Features p \<noteq> []"
  obtains c' where "AddPrototype c p = (c', Inr (preparePrototype (featureScaler c) p))"
    and "prototypes c' = prototypes c @ [preparePrototype (featureScaler c) p]"
    and "featureScaler c' = featureScaler c"
    and "usingExample c' = False"
  using assms by (simp add: AddPrototype_def Let_def)

lemma uploadLoop_prototypes:
  "prototypes (fst (uploadLoop c ps added))
     = prototypes c @ map (preparePrototype (featureScaler c))
                          (filter (\<lambda>p. Features p \<noteq> []) ps)
   \<and> snd (uploadLoop c ps added)
     = added @ map (preparePrototype (featureScaler c))
                   (filter (\<lambda>p. Features p \<noteq> []) ps)
   \<and> featureScaler (fst (uploadLoop c ps added)) = featureScaler c"
proof (induction ps arbitrary: c added)
  case Nil
  then show ?case by simp
next
  case (Cons p ps)
  show ?case
  proof (cases "Features p = []")
    case True
    then have "uploadLoop c (p # ps) added = uploadLoop c ps added"
      by (simp add: AddPrototype_empty)
    with True Cons.IH [of c added] show ?thesis by simp
  next
    case False
    let ?stored = "preparePrototype (featureScaler c) p"
    from AddPrototype_nonempty [OF False, of c]
    obtain c' where step: "AddPrototype c p = (c', Inr ?stored)"
      and protos: "prototypes c' = prototypes c @ [?stored]"
      and scaler: "featureScaler c' = featureScaler c" by blast
    from step have "uploadLoop c (p # ps) added = uploadLoop c' ps (added @ [?stored])"
      by simp
    with False Cons.IH [of c' "added @ [?stored]"] protos scaler
    show ?thesis by simp
  qed
qed

lemma Features_preparePrototype:
  "Features (preparePrototype scaler p)
     = NormaliseVectorInPlace (case scaler of
                                 Some fs \<Rightarrow> Transform fs (Features p)
                               | None \<Rightarrow> Features p)"
  by (simp add: preparePrototype_def Let_def)

lemma Label_preparePrototype: "Label (preparePrototype scaler p) = Label p"
  by (simp add: preparePrototype_def Let_def)

lemma AddPrototype_keeps:
  assumes "AddPrototype c p = (c', res)"
  shows "featureScaler c' = featureScaler c \<and> neighbourK c' = neighbourK c
         \<and> modelPath c' = modelPath c"
  using assms by (auto simp: AddPrototype_def Let_def split: if_splits)

text \<open>
  What \<open>AddPrototype\<close> checks. It refuses a prototype only when its feature vector is
  empty, and then leaves the store as it was. A prototype with a non-empty feature
  vector is appended whatever its length: the stored vector is the uploaded one,
  scaled when the store has a scaler of that length, then normalised, and it has the
  length of the uploaded one. In a batch, the refused uploads are skipped and all the
  others are stored, in order.
\<close>

lemma AddPrototype_rejects_only_empty:
  "(Features p = [] \<longrightarrow> AddPrototype c p = (c, Inl PrototypeHasNoFeatures))
   \<and> (Features p \<noteq> [] \<longrightarrow>
        (\<exists>c' stored. AddPrototype c p = (c', Inr stored)
           \<and> prototypes c' = prototypes c @ [stored]
           \<and> stored = preparePrototype (featureScaler c) p
           \<and> Features stored
               = NormaliseVectorInPlace (case featureScaler c of
                                           Some fs \<Rightarrow> Transform fs (Features p)
                                         | None \<Rightarrow> Features p)
           \<and> length (Features stored) = length (Features p)))
   \<and> prototypes (fst (uploadLoop c ps []))
       = prototypes c @ map (preparePrototype (featureScaler c))
                            (filter (\<lambda>p. Features p \<noteq> []) ps)
   \<and> snd (uploadLoop c ps [])
       = map (preparePrototype (featureScaler c)) (filter (\<lambda>p. Features p \<noteq> []) ps)"
proof -
  have a: "Features p = [] \<longrightarrow> AddPrototype c p = (c, Inl PrototypeHasNoFeatures)"
    by (simp add: AddPrototype_empty)
  have b: "Features p \<noteq> [] \<longrightarrow>
        (\<exists>c' stored. AddPrototype c p = (c', Inr stored)
           \<and> prototypes c' = prototypes c @ [stored]
           \<and> stored = preparePrototype (featureScaler c) p
           \<and> Features stored
               = NormaliseVectorInPlace (case featureScaler c of
                                           Some fs \<Rightarrow> Transform fs (Features p)
                                         | None \<Rightarrow> Features p)
           \<and> length (Features stored) = length (Features p))"
  proof
    assume ne: "Features p \<noteq> []"
    let ?stored = "preparePrototype (featureScaler c) p"
    from AddPrototype_nonempty [OF ne, of c]
    obtain c' where "AddPrototype c p = (c', Inr ?stored)"
      and "prototypes c' = prototypes c @ [?stored]" by blast
    moreover have "length (Features ?stored) = length (Features p)"
      by (rule length_preparePrototype)
    moreover have "Features ?stored
               = NormaliseVectorInPlace (case featureScaler c of
                                           Some fs \<Rightarrow> Transform fs (Features p)
                                         | None \<Rightarrow> Features p)"
      by (rule Features_preparePrototype)
    ultimately show "\<exists>c' stored. AddPrototype c p = (c', Inr stored)
           \<and> prototypes c' = prototypes c @ [stored]
           \<and> stored = preparePrototype (featureScaler c) p
           \<and> Features stored
               = NormaliseVectorInPlace (case featureScaler c of
                                           Some fs \<Rightarrow> Transform fs (Features p)
                                         | None \<Rightarrow> Features p)
           \<and> length (Features stored) = length (Features p)"
      by (intro exI [of _ c'] exI [of _ ?stored]) simp
  qed
  from a b uploadLoop_prototypes [of c ps "[]"] show ?thesis by simp
qed

subsection \<open>Saving and loading\<close>

lemma SavePrototypesToFile_file:
  assumes "modelPath c \<noteq> []"
  obtains c' fs' where "SavePrototypesToFile c fs = Inr (c', fs')"
    and "fs' (modelPath c) = Some (PrototypesJSON (prototypes c))"
    and "fs' (modelPath c @ ''.tmp'') = None"
    and "prototypes c' = prototypes c" and "usingExample c' = False"
  using assms by (simp add: SavePrototypesToFile_def Let_def)

lemma loadLoop_embeddings:
  "list_all (\<lambda>p. length (Features p) = 2048 \<and> Label p \<noteq> []) ps \<Longrightarrow>
   \<exists>res. loadLoop 2048 ps acc = Inr res"
proof (induction ps arbitrary: acc)
  case Nil
  show ?case by (rule exI [of _ acc]) simp
next
  case (Cons p ps)
  obtain lc lm z where acc: "acc = (lc, lm, z)" by (metis prod_cases3)
  from Cons.prems have p: "length (Features p) = 2048" "Label p \<noteq> []"
    and rest: "list_all (\<lambda>p. length (Features p) = 2048 \<and> Label p \<noteq> []) ps" by simp_all
  from p(1) have ne: "Features p \<noteq> []" by auto
  show ?case
    unfolding acc using p ne Cons.IH [OF rest]
    by (simp add: Let_def harmonicFeatureCount_def)
qed

lemma fitAndScale_embeddings:
  "list_all (\<lambda>p. length (Features p) = 2048 \<and> Label p \<noteq> []) ps \<Longrightarrow>
   fitAndScale ps = (None, ps)"
  by (cases ps) (simp_all add: fitAndScale_def)

lemma NewClassifierFromFile_embeddings:
  assumes "0 < k" and "fs path = Some (PrototypesJSON ps)"
    and "list_all (\<lambda>p. length (Features p) = 2048 \<and> Label p \<noteq> []) ps"
  shows "\<exists>c. NewClassifierFromFile fs path k = Inr c \<and> prototypes c = ps
           \<and> featureScaler c = None
           \<and> usingExample c = HasSuffix path ''.example''
           \<and> modelPath c = (if HasSuffix path ''.example''
                             then TrimSuffix path ''.example'' else path)
           \<and> neighbourK c = (if ps \<noteq> [] \<and> k > int (length ps)
                              then int (length ps) else k)"
proof -
  from loadLoop_embeddings [OF assms(3), of "(Map.empty, Map.empty, 0)"]
  obtain lc lm z where "loadLoop 2048 ps (Map.empty, Map.empty, 0) = Inr (lc, lm, z)"
    by (metis prod_cases3)
  with assms(1,2) fitAndScale_embeddings [OF assms(3)] show ?thesis
    by (simp add: NewClassifierFromFile_def featureWeights_def Let_def)
qed

text \<open>
  Where saving and loading do agree: a store with a model path whose prototypes all
  have 2048 features and a label is saved, and loading the saved file gives its
  prototypes back, in order and with the same feature vectors.
\<close>

lemma save_then_load_embeddings:
  assumes "modelPath c \<noteq> []" and "0 < k"
    and "list_all (\<lambda>p. length (Features p) = 2048 \<and> Label p \<noteq> []) (prototypes c)"
  shows "\<exists>c' fs' loaded. SavePrototypesToFile c fs = Inr (c', fs')
           \<and> fs' (modelPath c @ ''.tmp'') = None
           \<and> NewClassifierFromFile fs' (modelPath c) k = Inr loaded
           \<and> prototypes loaded = prototypes c
           \<and> featureScaler loaded = None"
proof -
  from SavePrototypesToFile_file [OF assms(1), of fs]
  obtain c' fs' where save: "SavePrototypesToFile c fs = Inr (c', fs')"
    and saved: "fs' (modelPath c) = Some (PrototypesJSON (prototypes c))"
    and tmp: "fs' (modelPath c @ ''.tmp'') = None" by blast
  from NewClassifierFromFile_embeddings
    [where fs = fs' and path = "modelPath c" and ps = "prototypes c", OF assms(2) saved assms(3)]
  obtain loaded where "NewClassifierFromFile fs' (modelPath c) k = Inr loaded"
    and "prototypes loaded = prototypes c" and "featureScaler loaded = None" by blast
  with save tmp show ?thesis by (intro exI [of _ c'] exI [of _ fs'] exI [of _ loaded]) simp
qed

text \<open>
  What the loader accepts. Every prototype of a file it loads has 2048 features, so
  the scaler block is never reached: a loaded store has no scaler, and its \<open>k\<close> is
  positive. A file that holds a prototype of any other length is refused.
\<close>

lemma loadLoop_Inr:
  "loadLoop n ps acc = Inr res \<Longrightarrow> list_all (\<lambda>p. length (Features p) = n) ps"
proof (induction ps arbitrary: acc)
  case Nil
  show ?case by simp
next
  case (Cons p ps)
  obtain lc lm z where acc: "acc = (lc, lm, z)" by (metis prod_cases3)
  from Cons.prems have len: "length (Features p) = n"
    unfolding acc by (simp split: if_splits)
  from Cons.prems obtain acc' where "loadLoop n ps acc' = Inr res"
    unfolding acc by (simp add: Let_def split: if_splits)
  from Cons.IH [OF this] len show ?case by simp
qed

lemma loadLoop_refuses:
  assumes "\<not> list_all (\<lambda>p. length (Features p) = n) ps"
  shows "\<exists>e. loadLoop n ps acc = Inl e"
proof (cases "loadLoop n ps acc")
  case (Inl e)
  then show ?thesis by simp
next
  case (Inr res)
  from loadLoop_Inr [OF this] assms show ?thesis by simp
qed

lemma loadLoop_wrong_count:
  assumes "list_all (\<lambda>p. length (Features p) = 2048 \<and> Label p \<noteq> []) ps"
    and "Features q \<noteq> []" and "Label q \<noteq> []" and "length (Features q) \<noteq> 2048"
  shows "loadLoop 2048 (ps @ q # rest) acc = Inl PrototypeWrongFeatureCount"
  using assms(1)
proof (induction ps arbitrary: acc)
  case Nil
  obtain lc lm z where acc: "acc = (lc, lm, z)" by (metis prod_cases3)
  from assms(2-4) show ?case unfolding acc by simp
next
  case (Cons p ps)
  obtain lc lm z where acc: "acc = (lc, lm, z)" by (metis prod_cases3)
  from Cons.prems have p: "length (Features p) = 2048" "Label p \<noteq> []"
    and rest: "list_all (\<lambda>p. length (Features p) = 2048 \<and> Label p \<noteq> []) ps" by simp_all
  from p(1) have ne: "Features p \<noteq> []" by auto
  show ?case
    unfolding acc using p ne Cons.IH [OF rest]
    by (simp add: Let_def harmonicFeatureCount_def)
qed




lemma NewClassifierFromFile_refuses_other_dimensions:
  assumes "fs path = Some (PrototypesJSON ps)"
    and "\<not> list_all (\<lambda>p. length (Features p) = 2048) ps"
  shows "\<exists>e. NewClassifierFromFile fs path k = Inl e"
proof (cases "NewClassifierFromFile fs path k")
  case (Inl e)
  then show ?thesis by simp
next
  case (Inr c)
  from Inr have "0 < k" by (auto simp: NewClassifierFromFile_def split: if_splits)
  from Inr assms(1) obtain res
    where "loadLoop 2048 ps (Map.empty, Map.empty, 0) = Inr res"
    by (auto simp: NewClassifierFromFile_def featureWeights_def
          split: if_splits sum.splits)
  from loadLoop_Inr [OF this] assms(2) show ?thesis by simp
qed

lemma save_then_load_refused:
  assumes "modelPath c \<noteq> []"
    and "\<not> list_all (\<lambda>p. length (Features p) = 2048) (prototypes c)"
  shows "\<exists>c' fs' e. SavePrototypesToFile c fs = Inr (c', fs')
           \<and> fs' (modelPath c) = Some (PrototypesJSON (prototypes c))
           \<and> NewClassifierFromFile fs' (modelPath c) k = Inl e"
proof -
  from SavePrototypesToFile_file [OF assms(1), of fs]
  obtain c' fs' where save: "SavePrototypesToFile c fs = Inr (c', fs')"
    and saved: "fs' (modelPath c) = Some (PrototypesJSON (prototypes c))" by blast
  from NewClassifierFromFile_refuses_other_dimensions
    [where fs = fs' and path = "modelPath c" and ps = "prototypes c" and k = k, OF saved assms(2)]
  obtain e where "NewClassifierFromFile fs' (modelPath c) k = Inl e" by blast
  with save saved show ?thesis by (intro exI [of _ c'] exI [of _ fs'] exI [of _ e]) simp
qed



subsection \<open>An upload of 19 features\<close>

lemma embeddingFiles_loaded:
  obtains c where "NewClassifierFromFile embeddingFiles ''drone/prototypes.json'' 5 = Inr c"
    and "prototypes c = [embedding]" and "featureScaler c = None"
    and "modelPath c = ''drone/prototypes.json''" and "neighbourK c = 1"
proof -
  have disk: "embeddingFiles ''drone/prototypes.json'' = Some (PrototypesJSON [embedding])"
    by (simp add: embeddingFiles_def)
  have all: "list_all (\<lambda>p. length (Features p) = 2048 \<and> Label p \<noteq> []) [embedding]"
    by (simp add: embedding_def)
  have suffix: "\<not> HasSuffix ''drone/prototypes.json'' ''.example''"
    by (simp add: HasSuffix_def)
  have "(0 :: int) < 5" by simp
  from NewClassifierFromFile_embeddings
    [where fs = embeddingFiles and path = "''drone/prototypes.json''" and ps = "[embedding]"
       and k = 5, OF this disk all] suffix that
  show thesis by auto
qed

lemma upload19_stored:
  "Features upload19 \<noteq> [] \<and> length (Features upload19) = 19
   \<and> Label (preparePrototype None upload19) \<noteq> []
   \<and> Features (preparePrototype None upload19) \<noteq> []
   \<and> length (Features (preparePrototype None upload19)) = 19"
proof -
  have a: "Features upload19 \<noteq> []" and b: "length (Features upload19) = 19"
    and c: "Label upload19 \<noteq> []"
    by (simp_all add: upload19_def)
  from b have d: "length (Features (preparePrototype None upload19)) = 19"
    by (simp add: length_preparePrototype)
  then have "Features (preparePrototype None upload19) \<noteq> []" by auto
  with a b c d show ?thesis by (simp add: Label_preparePrototype)
qed

text \<open>
  Claim C5 fails on the code. The server loads a store of one prototype with 2048
  features; \<open>AddPrototype\<close> is then given a prototype with 19 features, the vector the
  upload handler extracts from an audio file. The claim wants it refused and the store
  left as it was. The code stores it: the store now holds vectors of lengths 2048 and
  19. The only check of \<open>AddPrototype\<close> is for an empty vector, whereas the loader
  demands 2048 features of every prototype.
\<close>

theorem AddPrototype_accepts_other_dimension:
  "\<exists>c. NewClassifierFromFile embeddingFiles ''drone/prototypes.json'' 5 = Inr c
      \<and> map (\<lambda>p. length (Features p)) (prototypes c) = [2048]
      \<and> length (Features upload19) = 19
      \<and> (\<exists>c' stored. AddPrototype c upload19 = (c', Inr stored)
             \<and> prototypes c' = prototypes c @ [stored]
             \<and> Features stored = NormaliseVectorInPlace (Features upload19)
             \<and> map (\<lambda>p. length (Features p)) (prototypes c') = [2048, 19])"
proof -
  from embeddingFiles_loaded obtain c
    where load: "NewClassifierFromFile embeddingFiles ''drone/prototypes.json'' 5 = Inr c"
      and protos: "prototypes c = [embedding]" and scaler: "featureScaler c = None"
    by blast
  let ?stored = "preparePrototype None upload19"
  from upload19_stored have ne: "Features upload19 \<noteq> []"
    and len: "length (Features upload19) = 19"
    and slen: "length (Features ?stored) = 19" by simp_all
  from AddPrototype_nonempty [OF ne, of c]
  obtain c' where step: "AddPrototype c upload19 = (c', Inr ?stored)"
    and protos': "prototypes c' = prototypes c @ [?stored]"
    unfolding scaler by blast
  have elen: "length (Features embedding) = 2048" by (simp add: embedding_def)
  have feats: "Features ?stored = NormaliseVectorInPlace (Features upload19)"
    by (simp add: Features_preparePrototype)
  from protos elen have l1: "map (\<lambda>p. length (Features p)) (prototypes c) = [2048]" by simp
  from protos' protos elen slen
  have l2: "map (\<lambda>p. length (Features p)) (prototypes c') = [2048, 19]" by simp
  from step protos' feats l2
  have "\<exists>c' stored. AddPrototype c upload19 = (c', Inr stored)
             \<and> prototypes c' = prototypes c @ [stored]
             \<and> Features stored = NormaliseVectorInPlace (Features upload19)
             \<and> map (\<lambda>p. length (Features p)) (prototypes c') = [2048, 19]"
    by - (rule exI [of _ c'], rule exI [of _ ?stored], intro conjI)
  with load l1 len show ?thesis by - (rule exI [of _ c], intro conjI)
qed

text \<open>
  Claim C3 fails on the code. The server loads the same store and the upload handler
  is given the same prototype with 19 features: it is added, and the store is saved
  to the model file. Loading what was saved, as the server does when it starts again,
  does not give the store back: the loader refuses the file, because one of its
  prototypes has 19 features and not 2048. \<open>SavePrototypesToFile\<close> is there so that
  uploaded prototypes survive a restart.
\<close>

theorem upload_save_then_load_fails:
  "\<exists>c c' fs' stored.
      NewClassifierFromFile embeddingFiles ''drone/prototypes.json'' 5 = Inr c
      \<and> uploadHandler c [upload19] embeddingFiles = (c', fs', [stored])
      \<and> prototypes c' = prototypes c @ [stored]
      \<and> map (\<lambda>p. length (Features p)) (prototypes c') = [2048, 19]
      \<and> fs' ''drone/prototypes.json'' = Some (PrototypesJSON (prototypes c'))
      \<and> NewClassifierFromFile fs' ''drone/prototypes.json'' 5
          = Inl PrototypeWrongFeatureCount"
proof -
  from embeddingFiles_loaded obtain c
    where load: "NewClassifierFromFile embeddingFiles ''drone/prototypes.json'' 5 = Inr c"
      and protos: "prototypes c = [embedding]" and scaler: "featureScaler c = None"
      and path: "modelPath c = ''drone/prototypes.json''"
    by blast
  let ?stored = "preparePrototype None upload19"
  from upload19_stored have ne: "Features upload19 \<noteq> []"
    and slabel: "Label ?stored \<noteq> []" and sne: "Features ?stored \<noteq> []"
    and slen: "length (Features ?stored) = 19" by simp_all
  from AddPrototype_nonempty [OF ne, of c]
  obtain c1 where step: "AddPrototype c upload19 = (c1, Inr ?stored)"
    and protos1: "prototypes c1 = prototypes c @ [?stored]"
    unfolding scaler by blast
  from AddPrototype_keeps [OF step] path
  have path1: "modelPath c1 = ''drone/prototypes.json''" by simp
  then have "modelPath c1 \<noteq> []" by simp
  from SavePrototypesToFile_file [OF this, of embeddingFiles]
  obtain c2 fs' where save: "SavePrototypesToFile c1 embeddingFiles = Inr (c2, fs')"
    and saved: "fs' ''drone/prototypes.json'' = Some (PrototypesJSON (prototypes c1))"
    and protos2: "prototypes c2 = prototypes c1"
    unfolding path1 by blast
  from step save have handler: "uploadHandler c [upload19] embeddingFiles = (c2, fs', [?stored])"
    by (simp add: uploadHandler_def)
  have elen: "length (Features embedding) = 2048" by (simp add: embedding_def)
  from protos2 protos1 protos elen slen
  have lens: "map (\<lambda>p. length (Features p)) (prototypes c2) = [2048, 19]" by simp
  have all: "list_all (\<lambda>p. length (Features p) = 2048 \<and> Label p \<noteq> []) [embedding]"
    by (simp add: embedding_def)
  from slen have "length (Features ?stored) \<noteq> 2048" by simp
  from loadLoop_wrong_count [OF all sne slabel this, of "[]" "(Map.empty, Map.empty, 0)"]
  have "loadLoop 2048 (prototypes c1) (Map.empty, Map.empty, 0)
          = Inl PrototypeWrongFeatureCount"
    unfolding protos1 protos by simp
  with saved have refused: "NewClassifierFromFile fs' ''drone/prototypes.json'' 5
          = Inl PrototypeWrongFeatureCount"
    by (simp add: NewClassifierFromFile_def featureWeights_def)
  from saved protos2
  have saved2: "fs' ''drone/prototypes.json'' = Some (PrototypesJSON (prototypes c2))" by simp
  from protos2 protos1 have app: "prototypes c2 = prototypes c @ [?stored]" by simp
  from load handler app lens saved2 refused show ?thesis
    by - (rule exI [of _ c], rule exI [of _ c2], rule exI [of _ fs'],
          rule exI [of _ ?stored], intro conjI)
qed

subsection \<open>The example fallback\<close>

text \<open>
  Claim C6 fails on the code. With only \<open>drone/prototypes.example.json\<close> on disk,
  loading \<open>drone/prototypes.json\<close> reads the example file, yet the store is not marked
  as using the example and its model path stays the example file's: the code looks
  for the suffix \<open>.example\<close> on a path that ends in \<open>.example.json\<close>. For a path without
  extension the same code does set the mark.
\<close>

theorem NewClassifierFromFile_example_fallback_unmarked:
  "(\<exists>c. NewClassifierFromFile [''drone/prototypes.example.json'' \<mapsto> PrototypesJSON []]
            ''drone/prototypes.json'' 5 = Inr c
        \<and> usingExample c = False \<and> UsingExample (Stats c) = False
        \<and> modelPath c = ''drone/prototypes.example.json'')
   \<and> (\<exists>c. NewClassifierFromFile [''drone/prototypes.example'' \<mapsto> PrototypesJSON []]
            ''drone/prototypes'' 5 = Inr c
        \<and> usingExample c = True \<and> UsingExample (Stats c) = True
        \<and> modelPath c = ''drone/prototypes'')"
proof -
  have ext1: "Ext ''drone/prototypes.json'' = ''.json''" by (simp add: Ext_def)
  have ext2: "Ext ''drone/prototypes'' = []" by (simp add: Ext_def)
  have trim1: "TrimSuffix ''drone/prototypes.json'' ''.json'' = ''drone/prototypes''"
    by (simp add: TrimSuffix_def HasSuffix_def)
  have trim2: "TrimSuffix ''drone/prototypes'' [] = ''drone/prototypes''"
    by (simp add: TrimSuffix_def HasSuffix_def)
  have suf1: "\<not> HasSuffix ''drone/prototypes.example.json'' ''.example''"
    by (simp add: HasSuffix_def)
  have suf2: "HasSuffix ''drone/prototypes.example'' ''.example''"
    by (simp add: HasSuffix_def)
  have trim3: "TrimSuffix ''drone/prototypes.example'' ''.example'' = ''drone/prototypes''"
    by (simp add: TrimSuffix_def HasSuffix_def)
  have a: "\<exists>c. NewClassifierFromFile [''drone/prototypes.example.json'' \<mapsto> PrototypesJSON []]
            ''drone/prototypes.json'' 5 = Inr c
        \<and> usingExample c = False \<and> UsingExample (Stats c) = False
        \<and> modelPath c = ''drone/prototypes.example.json''"
    by (simp add: NewClassifierFromFile_def ext1 trim1 suf1 fitAndScale_def Stats_def Let_def)
  have b: "\<exists>c. NewClassifierFromFile [''drone/prototypes.example'' \<mapsto> PrototypesJSON []]
            ''drone/prototypes'' 5 = Inr c
        \<and> usingExample c = True \<and> UsingExample (Stats c) = True
        \<and> modelPath c = ''drone/prototypes''"
    by (simp add: NewClassifierFromFile_def ext2 trim2 suf2 trim3 fitAndScale_def Stats_def Let_def)
  from a b show ?thesis by (intro conjI)
qed

subsection \<open>Queries of zero norm\<close>



subsection \<open>Ranges of the extracted features\<close>

lemma clamp01_unit: "unitInterval (clamp01 x)"
  by (simp add: clamp01_def unitInterval_def)

lemma onsetRate_unit: "unitInterval (onsetRate samples sampleRate)"
proof -
  have "0 \<le> real n / d" if "0 < d" for n :: nat and d :: real
    using that by simp
  then show ?thesis
    by (auto simp: onsetRate_def unitInterval_def Let_def not_le)
qed

lemma amplitudeModulationDepth_unit: "unitInterval (amplitudeModulationDepth samples)"
proof (cases "samples = [] \<or> sum_list (map abs samples) / real (length samples) = 0")
  case True
  then show ?thesis by (auto simp: amplitudeModulationDepth_def unitInterval_def Let_def)
next
  case False
  let ?mean = "sum_list (map abs samples) / real (length samples)"
  have "0 \<le> sum_list (map abs samples)" by (rule sum_list_nonneg) auto
  then have "0 \<le> ?mean" by simp
  with False have "0 < ?mean + 1 / 10 ^ 9" by simp
  then have "0 \<le> sqrt x / (?mean + 1 / 10 ^ 9)" if "0 \<le> x" for x
    using that by simp
  moreover have "0 \<le> sum_list (map (\<lambda>s. (\<bar>s\<bar> - ?mean) * (\<bar>s\<bar> - ?mean)) samples)
                    / real (length samples)"
    by (intro divide_nonneg_nonneg sum_list_nonneg) auto
  ultimately show ?thesis
    using False by (simp add: amplitudeModulationDepth_def unitInterval_def Let_def)
qed

lemma spectralPeakProminence_unit: "unitInterval (spectralPeakProminence magnitude)"
  by (simp add: spectralPeakProminence_def unitInterval_def Let_def)

lemma spectralSkewness_closed:
  "- 1 \<le> spectralSkewness magnitude freqs centroid bandwidth
   \<and> spectralSkewness magnitude freqs centroid bandwidth \<le> 1"
proof -
  have "- 1 \<le> tanh x \<and> tanh x \<le> 1" for x :: real
    using tanh_real_gt_neg1 [of x] tanh_real_lt_1 [of x] by simp
  then show ?thesis by (simp add: spectralSkewness_def Let_def)
qed

lemma spectralFlatness_nonneg:
  assumes "list_all (\<lambda>m. 0 \<le> m) magnitude"
  shows "0 \<le> spectralFlatness magnitude"
proof -
  from assms have "0 \<le> sum_list (map (\<lambda>mag. mag + 1 / 10 ^ 12) magnitude)"
    by (intro sum_list_nonneg) (auto simp: list_all_iff)
  then have "0 \<le> exp x / (sum_list (map (\<lambda>mag. mag + 1 / 10 ^ 12) magnitude)
                            / real (length magnitude))" for x :: real
    by (intro divide_nonneg_nonneg) simp_all
  then show ?thesis by (simp add: spectralFlatness_def Let_def)
qed

lemma computeSpectrum_nonneg: "list_all (\<lambda>m. 0 \<le> m) (fst (computeSpectrum samples sampleRate))"
  by (simp add: computeSpectrum_def Let_def list_all_iff)

lemma ExtractFeatureVector_components:
  assumes "samples \<noteq> []" and "0 < sampleRate"
  shows "\<exists>v. ExtractFeatureVector samples sampleRate = Inr v \<and> length v = 19
    \<and> v ! 2 = clamp01 (spectralCentroid (fst (computeSpectrum samples sampleRate))
                          (snd (computeSpectrum samples sampleRate))
                        / (real_of_int sampleRate / 2))
    \<and> v ! 3 = clamp01 (spectralBandwidth (fst (computeSpectrum samples sampleRate))
                          (snd (computeSpectrum samples sampleRate))
                          (spectralCentroid (fst (computeSpectrum samples sampleRate))
                             (snd (computeSpectrum samples sampleRate)))
                        / (real_of_int sampleRate / 2))
    \<and> v ! 4 = clamp01 (spectralRolloff (fst (computeSpectrum samples sampleRate))
                          (snd (computeSpectrum samples sampleRate)) (85 / 100)
                        / (real_of_int sampleRate / 2))
    \<and> v ! 5 = spectralFlatness (fst (computeSpectrum samples sampleRate))
    \<and> v ! 6 = clamp01 (dominantFrequency (fst (computeSpectrum samples sampleRate))
                          (snd (computeSpectrum samples sampleRate))
                        / (real_of_int sampleRate / 2))
    \<and> v ! 7 = clamp01 (spectralCrestFactor (fst (computeSpectrum samples sampleRate)) / 100)
    \<and> v ! 11 = onsetRate samples sampleRate
    \<and> v ! 12 = amplitudeModulationDepth samples
    \<and> v ! 13 = spectralSkewness (fst (computeSpectrum samples sampleRate))
                  (snd (computeSpectrum samples sampleRate))
                  (spectralCentroid (fst (computeSpectrum samples sampleRate))
                     (snd (computeSpectrum samples sampleRate)))
                  (spectralBandwidth (fst (computeSpectrum samples sampleRate))
                     (snd (computeSpectrum samples sampleRate))
                     (spectralCentroid (fst (computeSpectrum samples sampleRate))
                        (snd (computeSpectrum samples sampleRate))))
    \<and> v ! 14 = clamp01 ((spectralKurtosis (fst (computeSpectrum samples sampleRate))
                  (snd (computeSpectrum samples sampleRate))
                  (spectralCentroid (fst (computeSpectrum samples sampleRate))
                     (snd (computeSpectrum samples sampleRate)))
                  (spectralBandwidth (fst (computeSpectrum samples sampleRate))
                     (snd (computeSpectrum samples sampleRate))
                     (spectralCentroid (fst (computeSpectrum samples sampleRate))
                        (snd (computeSpectrum samples sampleRate)))) + 3) / 13)
    \<and> v ! 15 = spectralPeakProminence (fst (computeSpectrum samples sampleRate))"
  using assms by (simp add: ExtractFeatureVector_def Let_def split_def)

text \<open>
  Claim C8, as amended. For every non-empty waveform with samples in \<open>[-1, 1]\<close> and
  every positive sample rate the extractor returns 19 components. Those at positions
  3, 4, 5, 7 and 8 (centroid, bandwidth, rolloff, dominant frequency, crest) and 12,
  13, 15 and 16 (onset rate, amplitude modulation depth, kurtosis, peak prominence)
  lie in \<open>[0, 1]\<close>: the code clamps or caps each of them. The spectral skewness at
  position 14 is a hyperbolic tangent and lies in \<open>[-1, 1]\<close>. The spectral flatness
  at position 6 is not negative; the code does not clamp it.
\<close>

theorem ExtractFeatureVector_ranges:
  assumes "list_all (\<lambda>s. - 1 \<le> s \<and> s \<le> 1) samples"
    and "samples \<noteq> []" and "0 < sampleRate"
  shows "\<exists>v. ExtractFeatureVector samples sampleRate = Inr v \<and> length v = 19
    \<and> unitInterval (v ! 2) \<and> unitInterval (v ! 3) \<and> unitInterval (v ! 4)
    \<and> 0 \<le> v ! 5 \<and> unitInterval (v ! 6) \<and> unitInterval (v ! 7)
    \<and> unitInterval (v ! 11) \<and> unitInterval (v ! 12)
    \<and> - 1 \<le> v ! 13 \<and> v ! 13 \<le> 1
    \<and> unitInterval (v ! 14) \<and> unitInterval (v ! 15)"
proof -
  from ExtractFeatureVector_components [OF assms(2,3)]
  obtain v where v: "ExtractFeatureVector samples sampleRate = Inr v" "length v = 19"
    and c: "v ! 2 = clamp01 (spectralCentroid (fst (computeSpectrum samples sampleRate))
                          (snd (computeSpectrum samples sampleRate))
                        / (real_of_int sampleRate / 2))"
      "v ! 3 = clamp01 (spectralBandwidth (fst (computeSpectrum samples sampleRate))
                          (snd (computeSpectrum samples sampleRate))
                          (spectralCentroid (fst (computeSpectrum samples sampleRate))
                             (snd (computeSpectrum samples sampleRate)))
                        / (real_of_int sampleRate / 2))"
      "v ! 4 = clamp01 (spectralRolloff (fst (computeSpectrum samples sampleRate))
                          (snd (computeSpectrum samples sampleRate)) (85 / 100)
                        / (real_of_int sampleRate / 2))"
      "v ! 6 = clamp01 (dominantFrequency (fst (computeSpectrum samples sampleRate))
                          (snd (computeSpectrum samples sampleRate))
                        / (real_of_int sampleRate / 2))"
      "v ! 7 = clamp01 (spectralCrestFactor (fst (computeSpectrum samples sampleRate)) / 100)"
      "v ! 14 = clamp01 ((spectralKurtosis (fst (computeSpectrum samples sampleRate))
                  (snd (computeSpectrum samples sampleRate))
                  (spectralCentroid (fst (computeSpectrum samples sampleRate))
                     (snd (computeSpectrum samples sampleRate)))
                  (spectralBandwidth (fst (computeSpectrum samples sampleRate))
                     (snd (computeSpectrum samples sampleRate))
                     (spectralCentroid (fst (computeSpectrum samples sampleRate))
                        (snd (computeSpectrum samples sampleRate)))) + 3) / 13)"
    and f: "v ! 5 = spectralFlatness (fst (computeSpectrum samples sampleRate))"
    and o: "v ! 11 = onsetRate samples sampleRate"
    and a: "v ! 12 = amplitudeModulationDepth samples"
    and s: "v ! 13 = spectralSkewness (fst (computeSpectrum samples sampleRate))
                  (snd (computeSpectrum samples sampleRate))
                  (spectralCentroid (fst (computeSpectrum samples sampleRate))
                     (snd (computeSpectrum samples sampleRate)))
                  (spectralBandwidth (fst (computeSpectrum samples sampleRate))
                     (snd (computeSpectrum samples sampleRate))
                     (spectralCentroid (fst (computeSpectrum samples sampleRate))
                        (snd (computeSpectrum samples sampleRate))))"
    and p: "v ! 15 = spectralPeakProminence (fst (computeSpectrum samples sampleRate))"
    by blast
  have "unitInterval (v ! 2)" "unitInterval (v ! 3)" "unitInterval (v ! 4)"
    "unitInterval (v ! 6)" "unitInterval (v ! 7)" "unitInterval (v ! 14)"
    unfolding c by (rule clamp01_unit)+
  moreover have "0 \<le> v ! 5"
    unfolding f by (rule spectralFlatness_nonneg [OF computeSpectrum_nonneg])
  moreover have "unitInterval (v ! 11)" unfolding o by (rule onsetRate_unit)
  moreover have "unitInterval (v ! 12)" unfolding a by (rule amplitudeModulationDepth_unit)
  moreover have "- 1 \<le> v ! 13 \<and> v ! 13 \<le> 1" unfolding s by (rule spectralSkewness_closed)
  moreover have "unitInterval (v ! 15)" unfolding p by (rule spectralPeakProminence_unit)
  ultimately show ?thesis using v by (intro exI [of _ v]) simp
qed

theorem ExtractFeatureVector_ranges_witness:
  "list_all (\<lambda>s. - 1 \<le> s \<and> s \<le> 1) chirp \<and> chirp \<noteq> [] \<and> (0 :: int) < 4
   \<and> (\<exists>v. ExtractFeatureVector chirp 4 = Inr v \<and> length v = 19
          \<and> unitInterval (v ! 2) \<and> 0 \<le> v ! 5 \<and> unitInterval (v ! 12)
          \<and> - 1 \<le> v ! 13 \<and> v ! 13 \<le> 1 \<and> unitInterval (v ! 15))"
proof -
  have range: "list_all (\<lambda>s. - 1 \<le> s \<and> s \<le> 1) chirp" by (simp add: chirp_def)
  have ne: "chirp \<noteq> []" by (simp add: chirp_def)
  have rate: "(0 :: int) < 4" by simp
  from ExtractFeatureVector_ranges [OF range ne rate]
  obtain v where "ExtractFeatureVector chirp 4 = Inr v" "length v = 19"
    "unitInterval (v ! 2)" "0 \<le> v ! 5" "unitInterval (v ! 12)"
    "- 1 \<le> v ! 13" "v ! 13 \<le> 1" "unitInterval (v ! 15)" by blast
  with range ne rate show ?thesis by (intro conjI exI [of _ v])
qed

lemma nextPowerOfTwo_3: "nextPowerOfTwo 3 = 4"
  by (simp add: nextPowerOfTwo_def nextPowerLoop.simps)

lemma cos_240: "cos (4 * pi / 3) = - 1 / 2"
proof -
  have "cos (4 * pi / 3) = cos (2 * pi - 2 * pi / 3)" by (simp add: field_simps)
  also have "\<dots> = cos (2 * pi / 3)" by (rule cos_2pi_minus)
  also have "\<dots> = - 1 / 2" by (rule cos_120)
  finally show ?thesis .
qed

lemma applyHannWindow_chirp: "applyHannWindow [0, 3 / 5, - (4 / 5), 0] = [0, 9 / 20, - (3 / 5), 0]"
proof -
  have idx: "[0..<4] = [0, 1, 2, 3]" by (simp add: upt_rec)
  show ?thesis
    by (simp add: applyHannWindow_def idx cos_120 cos_240)
qed

lemma recursiveFFT_pair: "recursiveFFT [a, b] = [a + b, a - b]"
  by (subst recursiveFFT.simps) (simp add: Let_def recursiveFFT.simps [of "[x]" for x] upt_rec
        complex_eq_iff)

lemma FFT_chirp:
  "FFT [0, 9 / 20, - (3 / 5), 0]
     = [Complex (- (3 / 20)) 0, Complex (3 / 5) (- (9 / 20)),
        Complex (- (21 / 20)) 0, Complex (3 / 5) (9 / 20)]"
proof -
  have idx: "[0..<2] = [0, 1]" by (simp add: upt_rec)
  have quarter: "- 2 * pi * real (Suc 0) / real 4 = - (pi / 2)"
    by simp
  show ?thesis
    unfolding FFT_def
    by (subst recursiveFFT.simps)
       (simp add: Let_def idx recursiveFFT_pair complex_eq_iff)
qed

lemma computeSpectrum_chirp: "computeSpectrum chirp 4 = ([3 / 20, 3 / 4], [0, 1])"
proof -
  have idx: "[0..<2] = [0, 1]" by (simp add: upt_rec)
  have "length chirp = 3" by (simp add: chirp_def)
  then have size: "nextPowerOfTwo (length chirp) = 4"
    by (simp only: nextPowerOfTwo_3)
  have pad: "chirp @ replicate (4 - length chirp) 0 = [0, 3 / 5, - (4 / 5), 0]"
    by (simp add: chirp_def)
  have m1: "cmod (Complex (3 / 5) (- (9 / 20))) = 3 / 4"
  proof -
    have "cmod (Complex (3 / 5) (- (9 / 20))) = sqrt ((3 / 4)\<^sup>2)"
      by (simp add: cmod_def power2_eq_square)
    then show ?thesis by simp
  qed
  have m0: "cmod (Complex (- (3 / 20)) 0) = 3 / 20"
    by (simp add: cmod_def)
  show ?thesis
    unfolding computeSpectrum_def Let_def size pad applyHannWindow_chirp FFT_chirp
    by (simp add: idx m0 m1)
qed

lemma spectralCentroid_chirp: "spectralCentroid [3 / 20, 3 / 4] [0, 1] = 5 / 6"
  by (simp add: spectralCentroid_def)

lemma spectralBandwidth_chirp: "spectralBandwidth [3 / 20, 3 / 4] [0, 1] (5 / 6) = sqrt (5 / 36)"
  by (simp add: spectralBandwidth_def power2_eq_square)

lemma spectralSkewness_chirp: "spectralSkewness [3 / 20, 3 / 4] [0, 1] (5 / 6) (sqrt (5 / 36)) < 0"
proof -
  have b: "0 < sqrt (5 / 36 :: real)" by simp
  then have den: "0 < sqrt (5 / 36 :: real) ^ 3 + 1 / 10 ^ 12"
    by (intro add_pos_pos zero_less_power) simp_all
  have num: "(3 / 20 * (0 - 5 / 6) * (0 - 5 / 6) * (0 - 5 / 6)
              + (3 / 4 * (1 - 5 / 6) * (1 - 5 / 6) * (1 - 5 / 6) + 0)) / (3 / 20 + 3 / 4 :: real) < 0"
    by simp
  from num den have "((3 / 20 * (0 - 5 / 6) * (0 - 5 / 6) * (0 - 5 / 6)
              + (3 / 4 * (1 - 5 / 6) * (1 - 5 / 6) * (1 - 5 / 6) + 0)) / (3 / 20 + 3 / 4 :: real))
            / (sqrt (5 / 36 :: real) ^ 3 + 1 / 10 ^ 12) < 0"
    by (rule divide_neg_pos)
  then have "tanh (((3 / 20 * (0 - 5 / 6) * (0 - 5 / 6) * (0 - 5 / 6)
              + (3 / 4 * (1 - 5 / 6) * (1 - 5 / 6) * (1 - 5 / 6) + 0)) / (3 / 20 + 3 / 4 :: real))
            / (sqrt (5 / 36 :: real) ^ 3 + 1 / 10 ^ 12)) < 0"
    by (simp only: tanh_real_neg_iff)
  moreover have "spectralSkewness [3 / 20, 3 / 4] [0, 1] (5 / 6) (sqrt (5 / 36))
      = tanh (((3 / 20 * (0 - 5 / 6) * (0 - 5 / 6) * (0 - 5 / 6)
              + (3 / 4 * (1 - 5 / 6) * (1 - 5 / 6) * (1 - 5 / 6) + 0)) / (3 / 20 + 3 / 4 :: real))
            / (sqrt (5 / 36 :: real) ^ 3 + 1 / 10 ^ 12))"
    unfolding spectralSkewness_def Let_def using b by simp
  ultimately show ?thesis by simp
qed

text \<open>
  The claim as first stated puts the skewness in \<open>[0, 1]\<close>. The waveform \<open>chirp\<close>, with
  samples in \<open>[-1, 1]\<close> and taken at 4 Hz, has the spectrum \<open>[3/20, 3/4]\<close> over the
  frequencies \<open>[0, 1]\<close>; its third moment about the centroid \<open>5/6\<close> is negative, and so
  is the skewness.
\<close>

theorem ExtractFeatureVector_negative_skewness_counterexample:
  "list_all (\<lambda>s. - 1 \<le> s \<and> s \<le> 1) chirp
   \<and> (\<exists>v. ExtractFeatureVector chirp 4 = Inr v \<and> v ! 13 < 0 \<and> \<not> unitInterval (v ! 13))"
proof -
  have range: "list_all (\<lambda>s. - 1 \<le> s \<and> s \<le> 1) chirp" by (simp add: chirp_def)
  have ne: "chirp \<noteq> []" by (simp add: chirp_def)
  from ExtractFeatureVector_components [OF ne, of 4]
  obtain v where v: "ExtractFeatureVector chirp 4 = Inr v"
    and s: "v ! 13 = spectralSkewness (fst (computeSpectrum chirp 4))
                  (snd (computeSpectrum chirp 4))
                  (spectralCentroid (fst (computeSpectrum chirp 4))
                     (snd (computeSpectrum chirp 4)))
                  (spectralBandwidth (fst (computeSpectrum chirp 4))
                     (snd (computeSpectrum chirp 4))
                     (spectralCentroid (fst (computeSpectrum chirp 4))
                        (snd (computeSpectrum chirp 4))))"
    by auto
  have "v ! 13 < 0"
    unfolding s computeSpectrum_chirp fst_conv snd_conv spectralCentroid_chirp spectralBandwidth_chirp
    by (rule spectralSkewness_chirp)
  with v range show ?thesis by (intro conjI exI [of _ v]) (simp_all add: unitInterval_def)
qed

end
